theory Spec2Isabelle
  imports Complex_Main
begin

section \<open>Data model (the jobs table and its enums)\<close>

text \<open>
  The enums of the Prisma schema. Numbers of the TypeScript code are doubles; coordinates
  are only stored and compared here, so they are modelled as reals (a stored NaN is outside
  the model). Integer columns (payMin, payMax) are ints, timestamps are milliseconds since
  the epoch. A character is a UTF-16 code unit below 256 (Latin-1); strings with other
  code units are outside the model, and case mapping and white space are those of
  JavaScript on these code units.
\<close>

datatype JobSource = ADZUNA | USAJOBS | MANUAL | LINKEDIN | INDEED | ZIPRECRUITER
  | GOOGLE_JOBS | ARIZONA_JOB_CONNECTION

datatype EmploymentType = FULL_TIME | PART_TIME | CONTRACT | TEMP | INTERN

datatype JobStatus = APPROVED | PENDING | REJECTED

text \<open>One row of the table jobs. locationPoint is the PostGIS point (longitude, latitude).\<close>

record Job =
  jobId :: string
  source :: JobSource
  sourceId :: string
  title :: string
  company :: string
  description :: string
  url :: string
  street :: "string option"
  city :: "string option"
  state :: "string option"
  postalCode :: "string option"
  country :: string
  latitude :: real
  longitude :: real
  locationPoint :: "real \<times> real"
  employmentType :: "EmploymentType option"
  payMin :: "int option"
  payMax :: "int option"
  payCurrency :: "string option"
  status :: JobStatus
  postedAt :: int
  createdAt :: int
  updatedAt :: int

section \<open>JavaScript helpers\<close>

text \<open>Truthiness of an optional string and of an optional number, as \<open>if (x)\<close> tests them.\<close>

definition truthyStr :: "string option \<Rightarrow> bool" where
  "truthyStr x = (case x of None \<Rightarrow> False | Some s \<Rightarrow> s \<noteq> [])"

definition truthyNum :: "int option \<Rightarrow> bool" where
  "truthyNum x = (case x of None \<Rightarrow> False | Some n \<Rightarrow> n \<noteq> 0)"

text \<open>
  The code units that \<open>toLowerCase\<close> changes: A to Z, and the accented capitals
  U+00C0 to U+00DE without the multiplication sign U+00D7; each moves up by 32.
\<close>

definition isUpper :: "char \<Rightarrow> bool" where
  "isUpper c =
     (((65::nat) \<le> of_char c \<and> of_char c \<le> (90::nat))
      \<or> ((192::nat) \<le> of_char c \<and> of_char c \<le> (222::nat) \<and> of_char c \<noteq> (215::nat)))"

definition lowerChar :: "char \<Rightarrow> char" where
  "lowerChar c = (if isUpper c then char_of (of_char c + (32::nat)) else c)"

definition toLowerCase :: "string \<Rightarrow> string" where
  "toLowerCase s = map lowerChar s"

text \<open>
  The white space and line terminators that \<open>trim\<close> removes, among the code units
  below 256: the codes 9 to 13, the space and the no-break space U+00A0.
\<close>

definition isSpace :: "char \<Rightarrow> bool" where
  "isSpace c =
     (of_char c = (32::nat) \<or> of_char c = (160::nat)
      \<or> ((9::nat) \<le> of_char c \<and> of_char c \<le> (13::nat)))"

definition trim :: "string \<Rightarrow> string" where
  "trim s = rev (dropWhile isSpace (rev (dropWhile isSpace s)))"

text \<open>\<open>s.split(",")\<close>: the pieces between the separators; always at least one piece.\<close>

fun splitOn :: "char \<Rightarrow> string \<Rightarrow> string list" where
  "splitOn sep [] = [[]]"
| "splitOn sep (c # cs) =
     (if c = sep then [] # splitOn sep cs
      else (case splitOn sep cs of [] \<Rightarrow> [[c]] | p # ps \<Rightarrow> (c # p) # ps))"

definition isDigit :: "char \<Rightarrow> bool" where
  "isDigit c = ((48::nat) \<le> of_char c \<and> of_char c \<le> (57::nat))"

section \<open>Search route (routes/jobs.ts)\<close>

datatype api_error = BadRequest | InternalError

text \<open>
  The query string after zod's coercions. A field that is absent from the request is None.
\<close>

record SearchParams =
  sp_bbox :: string
  sp_q :: "string option"
  sp_company :: "string option"
  sp_minPay :: "int option"
  sp_maxAgeDays :: "int option"
  sp_type :: "EmploymentType option"
  sp_types :: "string option"
  sp_limit :: "int option"

text \<open>The regular expression of one bbox number: \<open>-?\d+\.?\d*\<close>.\<close>

definition isBboxNumber :: "string \<Rightarrow> bool" where
  "isBboxNumber s =
     (let t = (case s of [] \<Rightarrow> [] | c # cs \<Rightarrow> if c = CHR ''-'' then cs else s);
          ds = takeWhile isDigit t;
          r = dropWhile isDigit t;
          r' = (case r of [] \<Rightarrow> [] | c # cs \<Rightarrow> if c = CHR ''.'' then cs else r)
      in ds \<noteq> [] \<and> list_all isDigit r')"

text \<open>
  searchQuerySchema.parse: the checks of the schema, and the default of limit. The result
  is the validated parameter record with limit filled in.
\<close>

definition searchQuerySchema :: "SearchParams \<Rightarrow> api_error + SearchParams" where
  "searchQuerySchema p =
     (let parts = splitOn (CHR '','') (sp_bbox p);
          lim = (case sp_limit p of None \<Rightarrow> 200 | Some l \<Rightarrow> l)
      in if length parts = 4 \<and> list_all isBboxNumber parts
            \<and> (case sp_minPay p of None \<Rightarrow> True | Some n \<Rightarrow> 0 < n)
            \<and> (case sp_maxAgeDays p of None \<Rightarrow> True | Some n \<Rightarrow> 0 < n)
            \<and> 0 < lim \<and> lim \<le> 500
         then Inr (p\<lparr>sp_limit := Some lim\<rparr>)
         else Inl BadRequest)"

text \<open>
  What the route takes from outside the TypeScript code: JavaScript's Number on a bbox
  part, PostGIS's ST_Intersects of a point with the envelope of four numbers, SQL's LIKE
  (value, pattern) and LOWER, and the date \<open>n\<close> days before a date (Date.setDate).
\<close>

record SqlEnv =
  toNumber :: "string \<Rightarrow> real"
  st_intersects :: "real \<times> real \<Rightarrow> real \<times> real \<times> real \<times> real \<Rightarrow> bool"
  sql_like :: "string \<Rightarrow> string \<Rightarrow> bool"
  sql_lower :: "string \<Rightarrow> string"
  daysBefore :: "int \<Rightarrow> int \<Rightarrow> int"

definition parseBbox :: "SqlEnv \<Rightarrow> string \<Rightarrow> real \<times> real \<times> real \<times> real" where
  "parseBbox env b =
     (case map (toNumber env) (splitOn (CHR '','') b) of
        [minLon, minLat, maxLon, maxLat] \<Rightarrow> (minLon, minLat, maxLon, maxLat)
      | _ \<Rightarrow> (0, 0, 0, 0))"

text \<open>The cast \<open>$n::"EmploymentType"\<close> of a request string; None is the cast's failure.\<close>

definition castEmploymentType :: "string \<Rightarrow> EmploymentType option" where
  "castEmploymentType s =
     (if s = ''FULL_TIME'' then Some FULL_TIME
      else if s = ''PART_TIME'' then Some PART_TIME
      else if s = ''CONTRACT'' then Some CONTRACT
      else if s = ''TEMP'' then Some TEMP
      else if s = ''INTERN'' then Some INTERN
      else None)"

definition showEmploymentType :: "EmploymentType \<Rightarrow> string" where
  "showEmploymentType t =
     (case t of FULL_TIME \<Rightarrow> ''FULL_TIME'' | PART_TIME \<Rightarrow> ''PART_TIME''
      | CONTRACT \<Rightarrow> ''CONTRACT'' | TEMP \<Rightarrow> ''TEMP'' | INTERN \<Rightarrow> ''INTERN'')"

text \<open>
  The employment-type condition: the types of \<open>params.types\<close> (split at commas, trimmed)
  joined by OR, else the single \<open>params.type\<close>, else no condition (None). A type that
  is not a value of the enum makes the query fail.
\<close>

definition typeFilter :: "SearchParams \<Rightarrow> api_error + EmploymentType list option" where
  "typeFilter p =
     (if truthyStr (sp_types p) then
        (let ts = map (\<lambda>t. castEmploymentType (trim t)) (splitOn (CHR '','') (the (sp_types p)))
         in if list_all (\<lambda>t. t \<noteq> None) ts then Inr (Some (map the ts))
            else Inl InternalError)
      else (case sp_type p of Some t \<Rightarrow> Inr (Some [t]) | None \<Rightarrow> Inr None))"

text \<open>
  The WHERE clause, one conjunct per element of whereParts, in the order they are pushed.
  A comparison with a NULL column is not true, so the row is left out.
\<close>

definition whereClause ::
  "SqlEnv \<Rightarrow> int \<Rightarrow> SearchParams \<Rightarrow> EmploymentType list option \<Rightarrow> Job \<Rightarrow> bool" where
  "whereClause env now p tys j =
     (st_intersects env (locationPoint j) (parseBbox env (sp_bbox p))
      \<and> (truthyStr (sp_q p) \<longrightarrow>
           (let searchTerm = ''%'' @ toLowerCase (the (sp_q p)) @ ''%''
            in sql_like env (sql_lower env (title j)) searchTerm
               \<or> sql_like env (sql_lower env (description j)) searchTerm))
      \<and> (truthyStr (sp_company p) \<longrightarrow>
           sql_like env (sql_lower env (company j))
             (''%'' @ toLowerCase (the (sp_company p)) @ ''%''))
      \<and> (truthyNum (sp_minPay p) \<longrightarrow>
           (case payMax j of Some x \<Rightarrow> the (sp_minPay p) \<le> x | None \<Rightarrow> False)
           \<or> (case payMin j of Some x \<Rightarrow> the (sp_minPay p) \<le> x | None \<Rightarrow> False))
      \<and> (truthyNum (sp_maxAgeDays p) \<longrightarrow>
           daysBefore env now (the (sp_maxAgeDays p)) \<le> postedAt j)
      \<and> (case tys of None \<Rightarrow> True
          | Some ts \<Rightarrow> (case employmentType j of None \<Rightarrow> False | Some t \<Rightarrow> t \<in> set ts))
      \<and> status j = APPROVED
      \<and> (case street j of None \<Rightarrow> False | Some s \<Rightarrow> s \<noteq> []))"

text \<open>
  The query: the rows of the table that satisfy the WHERE clause, ordered by postedAt
  descending, at most limit of them.
\<close>

definition queryJobs :: "SqlEnv \<Rightarrow> int \<Rightarrow> Job list \<Rightarrow> SearchParams \<Rightarrow> api_error + Job list" where
  "queryJobs env now jobs p =
     (case typeFilter p of
        Inl e \<Rightarrow> Inl e
      | Inr tys \<Rightarrow>
          Inr (take (nat (the (sp_limit p)))
                 (sort_key (\<lambda>j. - postedAt j) (filter (whereClause env now p tys) jobs))))"

record JobPin =
  p_id :: string
  p_title :: string
  p_company :: string
  p_url :: string
  p_lat :: real
  p_lon :: real
  p_payMin :: "int option"
  p_payMax :: "int option"
  p_postedAt :: int
  p_street :: "string option"
  p_city :: "string option"
  p_state :: "string option"
  p_employmentType :: "EmploymentType option"
  p_source :: JobSource

definition jobToPin :: "Job \<Rightarrow> JobPin" where
  "jobToPin job =
     \<lparr>p_id = jobId job, p_title = title job, p_company = company job, p_url = url job,
      p_lat = latitude job, p_lon = longitude job, p_payMin = payMin job,
      p_payMax = payMax job, p_postedAt = postedAt job, p_street = street job,
      p_city = city job, p_state = state job, p_employmentType = employmentType job,
      p_source = source job\<rparr>"

record SearchResult =
  r_jobs :: "JobPin list"
  r_count :: nat

text \<open>
  The cache key of getCacheKey, kept as the list of parameter names (sorted) with their
  values instead of its rendering as one string.
\<close>

datatype json = JStr string | JNum int

type_synonym cacheKey = "string \<times> (string \<times> json) list"

definition orEmpty :: "string option \<Rightarrow> string" where
  "orEmpty x = (if truthyStr x then the x else [])"

definition orZero :: "int option \<Rightarrow> int" where
  "orZero x = (if truthyNum x then the x else 0)"

definition searchCacheKey :: "SearchParams \<Rightarrow> cacheKey" where
  "searchCacheKey p =
     (''jobs:search'',
      [(''bbox'', JStr (sp_bbox p)),
       (''company'', JStr (orEmpty (sp_company p))),
       (''limit'', JNum (the (sp_limit p))),
       (''maxAgeDays'', JNum (orZero (sp_maxAgeDays p))),
       (''minPay'', JNum (orZero (sp_minPay p))),
       (''q'', JStr (orEmpty (sp_q p))),
       (''types'', JStr (if truthyStr (sp_types p) then the (sp_types p)
                         else (case sp_type p of Some t \<Rightarrow> showEmploymentType t
                               | None \<Rightarrow> [])))])"

text \<open>
  Redis: None when no connection is configured; otherwise the live entries, each with the
  TTL in seconds it was stored with (an expired entry is no longer in the map).
\<close>

type_synonym redis = "(cacheKey \<rightharpoonup> (nat \<times> SearchResult)) option"

definition getCache :: "redis \<Rightarrow> cacheKey \<Rightarrow> SearchResult option" where
  "getCache r k = (case r of None \<Rightarrow> None | Some m \<Rightarrow> map_option snd (m k))"

definition setCache :: "redis \<Rightarrow> cacheKey \<Rightarrow> SearchResult \<Rightarrow> nat \<Rightarrow> redis" where
  "setCache r k v ttl = (case r of None \<Rightarrow> None | Some m \<Rightarrow> Some (m(k \<mapsto> (ttl, v))))"

definition searchTtl :: "SearchParams \<Rightarrow> nat" where
  "searchTtl p =
     (if truthyStr (sp_q p) \<or> truthyStr (sp_company p) \<or> truthyNum (sp_minPay p)
         \<or> truthyNum (sp_maxAgeDays p)
      then 180 else 300)"

datatype xcache = HIT | MISS

text \<open>
  The handler of GET /v1/jobs/search: the reply (an error status, or the result with the
  X-Cache header) and Redis after the request.
\<close>

definition searchHandler ::
  "SqlEnv \<Rightarrow> int \<Rightarrow> Job list \<Rightarrow> redis \<Rightarrow> SearchParams
     \<Rightarrow> (api_error + SearchResult \<times> xcache) \<times> redis" where
  "searchHandler env now jobs r raw =
     (case searchQuerySchema raw of
        Inl e \<Rightarrow> (Inl e, r)
      | Inr params \<Rightarrow>
          (let cacheKey = searchCacheKey params in
           case getCache r cacheKey of
             Some cached \<Rightarrow> (Inr (cached, HIT), r)
           | None \<Rightarrow>
               (case queryJobs env now jobs params of
                  Inl e \<Rightarrow> (Inl e, r)
                | Inr rows \<Rightarrow>
                    (let pins = map jobToPin rows;
                         result = \<lparr>r_jobs = pins, r_count = length pins\<rparr>;
                         ttl = searchTtl params
                     in (Inr (result, MISS), setCache r cacheKey result ttl)))))"

section \<open>Upsert (lib/jobs.ts)\<close>

text \<open>
  JobInput, the argument \<open>data\<close> of upsertJob. An optional field that is undefined or
  null is None. payMin and payMax go into INTEGER columns and are taken as ints.
\<close>

record JobInput =
  d_source :: JobSource
  d_sourceId :: string
  d_title :: string
  d_company :: string
  d_description :: string
  d_url :: string
  d_street :: "string option"
  d_city :: "string option"
  d_state :: "string option"
  d_postalCode :: "string option"
  d_country :: "string option"
  d_latitude :: real
  d_longitude :: real
  d_employmentType :: "EmploymentType option"
  d_payMin :: "int option"
  d_payMax :: "int option"
  d_payCurrency :: "string option"
  d_postedAt :: int
  d_status :: "JobStatus option"

text \<open>
  The errors upsertJob can end with: its own two throws, a statement that PostgreSQL
  refuses because of a parameter (DatabaseError), and the INSERT refused by the primary key
  of the table when the generated id is already taken.
\<close>

datatype upsert_error = SourceIdRequired | FailedToCreate | DatabaseError | DuplicateId

text \<open>
  What the columns of the table take (migration.sql): a TEXT value has no NUL character, an
  INTEGER value (payMin, payMax) lies in the 32-bit range. Which dates the driver and
  PostgreSQL take as a TIMESTAMP(3), and which sources are values of the enum JobSource in
  the database, is left to parameters.
\<close>

record Postgres =
  acceptsTimestamp :: "int \<Rightarrow> bool"
  acceptsSource :: "JobSource \<Rightarrow> bool"

definition storableText :: "string \<Rightarrow> bool" where
  "storableText s = (CHR 0x00 \<notin> set s)"

definition storableOpt :: "string option \<Rightarrow> bool" where
  "storableOpt x = (case x of None \<Rightarrow> True | Some s \<Rightarrow> storableText s)"

definition inIntegerColumn :: "int option \<Rightarrow> bool" where
  "inIntegerColumn x =
     (case x of None \<Rightarrow> True | Some n \<Rightarrow> - 2147483648 \<le> n \<and> n \<le> 2147483647)"

text \<open>
  The parameters that the UPDATE and the INSERT statement have in common, all accepted.
\<close>

definition rowAccepted :: "Postgres \<Rightarrow> JobInput \<Rightarrow> bool" where
  "rowAccepted pg d =
     (storableText (d_title d) \<and> storableText (d_company d)
      \<and> storableText (d_description d) \<and> storableText (d_url d)
      \<and> storableOpt (d_street d) \<and> storableOpt (d_city d) \<and> storableOpt (d_state d)
      \<and> storableOpt (d_postalCode d) \<and> storableOpt (d_country d)
      \<and> inIntegerColumn (d_payMin d) \<and> inIntegerColumn (d_payMax d)
      \<and> storableOpt (d_payCurrency d) \<and> acceptsTimestamp pg (d_postedAt d))"

definition orElse :: "'a option \<Rightarrow> 'a \<Rightarrow> 'a" where
  "orElse x d = (case x of None \<Rightarrow> d | Some v \<Rightarrow> v)"

definition defaultStatus :: "JobInput \<Rightarrow> JobStatus" where
  "defaultStatus d =
     (case d_status d of Some s \<Rightarrow> s
      | None \<Rightarrow> if d_source d = MANUAL then PENDING else APPROVED)"

text \<open>SELECT ... WHERE source = $1 AND "sourceId" = $2.\<close>

definition existingJobs :: "Job list \<Rightarrow> JobInput \<Rightarrow> Job list" where
  "existingJobs jobs d = filter (\<lambda>j. source j = d_source d \<and> sourceId j = d_sourceId d) jobs"

text \<open>SELECT ... WHERE id = $1.\<close>

definition selectById :: "Job list \<Rightarrow> string \<Rightarrow> Job list" where
  "selectById jobs i = filter (\<lambda>j. jobId j = i) jobs"

text \<open>The SET list of the UPDATE statement; status is in it only when the input has one.\<close>

definition updateRow :: "int \<Rightarrow> JobInput \<Rightarrow> Job \<Rightarrow> Job" where
  "updateRow now d j =
     (let j' = j\<lparr>title := d_title d, company := d_company d, description := d_description d,
                 url := d_url d, street := d_street d, city := d_city d, state := d_state d,
                 postalCode := d_postalCode d, country := orElse (d_country d) ''US'',
                 latitude := d_latitude d, longitude := d_longitude d,
                 employmentType := d_employmentType d, payMin := d_payMin d,
                 payMax := d_payMax d, payCurrency := Some (orElse (d_payCurrency d) ''USD''),
                 postedAt := d_postedAt d, updatedAt := now\<rparr>
      in case d_status d of None \<Rightarrow> j' | Some s \<Rightarrow> j'\<lparr>status := s\<rparr>)"

definition updateWhereId :: "string \<Rightarrow> (Job \<Rightarrow> Job) \<Rightarrow> Job list \<Rightarrow> Job list" where
  "updateWhereId i f jobs = map (\<lambda>j. if jobId j = i then f j else j) jobs"

text \<open>lib/postgis.ts: UPDATE jobs SET "locationPoint" = ST_MakePoint(lon, lat) WHERE id.\<close>

definition setJobLocationPoint :: "string \<Rightarrow> real \<Rightarrow> real \<Rightarrow> Job list \<Rightarrow> Job list" where
  "setJobLocationPoint i lon' lat' jobs =
     updateWhereId i (\<lambda>j. j\<lparr>locationPoint := (lon', lat')\<rparr>) jobs"

definition insertRow :: "int \<Rightarrow> string \<Rightarrow> JobInput \<Rightarrow> Job" where
  "insertRow now newId d =
     \<lparr>jobId = newId, source = d_source d, sourceId = d_sourceId d, title = d_title d,
      company = d_company d, description = d_description d, url = d_url d,
      street = d_street d, city = d_city d, state = d_state d,
      postalCode = d_postalCode d, country = orElse (d_country d) ''US'',
      latitude = d_latitude d, longitude = d_longitude d,
      locationPoint = (d_longitude d, d_latitude d),
      employmentType = d_employmentType d, payMin = d_payMin d, payMax = d_payMax d,
      payCurrency = Some (orElse (d_payCurrency d) ''USD''),
      status = defaultStatus d, postedAt = d_postedAt d, createdAt = now, updatedAt = now\<rparr>"

text \<open>
  upsertJob, with the database's parameters, the clock (NOW()) and the id that
  generateId returns as arguments, on the rows of the table. The result is the table after
  the call with the returned \<open>{ job, created }\<close>; the returned job is the first row the
  final SELECT finds (\<open>updatedJobs[0]\<close>, undefined when there is none). A statement
  with a parameter that PostgreSQL refuses throws and writes nothing.
\<close>

definition upsertJob ::
  "Postgres \<Rightarrow> int \<Rightarrow> string \<Rightarrow> Job list \<Rightarrow> JobInput
     \<Rightarrow> upsert_error + (Job list \<times> Job option \<times> bool)" where
  "upsertJob pg now newId jobs d =
     (if d_sourceId d = [] \<or> trim (d_sourceId d) = [] then Inl SourceIdRequired
      else if \<not> storableText (d_sourceId d) \<or> \<not> acceptsSource pg (d_source d)
        then Inl DatabaseError
      else
        (case existingJobs jobs d of
           existing # _ \<Rightarrow>
             (if \<not> rowAccepted pg d then Inl DatabaseError
              else
                (let jobs1 = updateWhereId (jobId existing) (updateRow now d) jobs;
                     jobs2 = (if latitude existing \<noteq> d_latitude d
                                 \<or> longitude existing \<noteq> d_longitude d
                              then setJobLocationPoint (jobId existing) (d_longitude d)
                                     (d_latitude d) jobs1
                              else jobs1)
                 in Inr (jobs2,
                         (case selectById jobs2 (jobId existing) of
                            [] \<Rightarrow> None | j # _ \<Rightarrow> Some j),
                         False)))
         | [] \<Rightarrow>
             (if \<not> rowAccepted pg d then Inl DatabaseError
              else if newId \<in> set (map jobId jobs) then Inl DuplicateId
              else
                (let jobs1 = jobs @ [insertRow now newId d]
                 in case selectById jobs1 newId of
                      [] \<Rightarrow> Inl FailedToCreate
                    | j # _ \<Rightarrow> Inr (jobs1, Some j, True)))))"

section \<open>Geocoding (lib/geocode.ts)\<close>

record GeocodeAddress =
  a_street :: "string option"
  a_city :: "string option"
  a_state :: "string option"
  a_postalCode :: "string option"
  a_country :: "string option"

record GeocodeResult =
  lat :: real
  lon :: real

text \<open>\<open>parts.join(sep)\<close>.\<close>

fun joinWith :: "string \<Rightarrow> string list \<Rightarrow> string" where
  "joinWith sep [] = []"
| "joinWith sep [x] = x"
| "joinWith sep (x # y # ys) = x @ sep @ joinWith sep (y # ys)"

definition normalizeAddressKey :: "GeocodeAddress \<Rightarrow> string" where
  "normalizeAddressKey address =
     joinWith '', ''
       (map (\<lambda>p. trim (toLowerCase (the p)))
          (filter truthyStr
             [a_street address, a_city address, a_state address, a_postalCode address,
              Some (if truthyStr (a_country address) then the (a_country address)
                    else ''US'')]))"

text \<open>
  The Mapbox service as the code sees it through fetch: a call throws (Failed), answers
  with a status that is not ok (NotOk), or answers with a JSON body (Body).
\<close>

datatype 'a response = Failed | NotOk | Body 'a

text \<open>One feature of a reverse-geocoding answer, with the fields the code reads.\<close>

record ContextItem =
  c_id :: "string option"
  c_text :: "string option"
  c_short_code :: "string option"

record Feature =
  place_type :: "string list option"
  f_context :: "ContextItem list option"
  f_text :: "string option"
  prop_address :: "string option"
  prop_name :: "string option"

text \<open>
  The environment of the geocoder: the token of process.env, and the three requests the
  code sends. cityLookup takes the \<open>City, State\<close> query and answers with the centers of
  its features (a feature may have none); forwardLookup takes the full query, the country
  parameter and the proximity parameter and answers with the centers [lon, lat] of its
  features; reverseLookup takes lon and lat.
\<close>

record Mapbox =
  mapboxToken :: "string option"
  cityLookup :: "string \<Rightarrow> (real \<times> real) option list response"
  forwardLookup :: "string \<Rightarrow> string \<Rightarrow> (real \<times> real) option \<Rightarrow> (real \<times> real) list response"
  reverseLookup :: "real \<Rightarrow> real \<Rightarrow> Feature list response"

datatype geo_error = TokenMissing | NoComponent | MapboxApiError | NoResults | FetchFailed

text \<open>
  geocodeWithMapbox. The second component of the result counts the calls of fetch that
  were made.
\<close>

definition geocodeWithMapbox :: "Mapbox \<Rightarrow> GeocodeAddress \<Rightarrow> (geo_error + GeocodeResult) \<times> nat" where
  "geocodeWithMapbox mb address =
     (if \<not> truthyStr (mapboxToken mb) then (Inl TokenMissing, 0)
      else
        (let queryParts = map the (filter truthyStr
               [a_street address, a_city address, a_state address, a_postalCode address,
                a_country address]);
             query = joinWith '', '' queryParts
         in if query = [] then (Inl NoComponent, 0)
            else
              (let countryParam = (if truthyStr (a_country address) then the (a_country address)
                                   else ''US'');
                   biased = truthyStr (a_city address) \<and> truthyStr (a_state address);
                   proximity =
                     (if biased then
                        (case cityLookup mb (the (a_city address) @ '', '' @ the (a_state address)) of
                           Body (Some center # _) \<Rightarrow> Some center
                         | _ \<Rightarrow> None)
                      else None);
                   calls = (if biased then 2 else 1)
               in case forwardLookup mb query countryParam proximity of
                    Failed \<Rightarrow> (Inl FetchFailed, calls)
                  | NotOk \<Rightarrow> (Inl MapboxApiError, calls)
                  | Body [] \<Rightarrow> (Inl NoResults, calls)
                  | Body ((lon', lat') # _) \<Rightarrow> (Inr \<lparr>lat = lat', lon = lon'\<rparr>, calls))))"

text \<open>
  The table geocode_cache behind prisma: None when a call on it throws, else its rows as
  a map from key to coordinates.
\<close>

type_synonym geocodeCache = "(string \<rightharpoonup> GeocodeResult) option"

text \<open>
  geocodeAddress: the result (an error thrown, or the coordinates), the cache after the
  call and the number of calls of fetch it made.
\<close>

definition geocodeAddress ::
  "Mapbox \<Rightarrow> geocodeCache \<Rightarrow> GeocodeAddress
     \<Rightarrow> (geo_error + GeocodeResult) \<times> geocodeCache \<times> nat" where
  "geocodeAddress mb cache address =
     (let cacheKey = normalizeAddressKey address;
          cached = (case cache of None \<Rightarrow> None | Some m \<Rightarrow> m cacheKey)
      in case cached of
           Some c \<Rightarrow> (Inr \<lparr>lat = lat c, lon = lon c\<rparr>, cache, 0)
         | None \<Rightarrow>
             (case geocodeWithMapbox mb address of
                (Inl e, n) \<Rightarrow> (Inl e, cache, n)
              | (Inr result, n) \<Rightarrow>
                  (Inr result,
                   (case cache of None \<Rightarrow> None
                    | Some m \<Rightarrow> Some (m(cacheKey \<mapsto> \<lparr>lat = lat result, lon = lon result\<rparr>))),
                   n)))"

text \<open>
  geocodeAddressSafe on an address object (the string form first builds the object from
  the parts between commas): any error becomes null.
\<close>

definition addressOfString :: "string \<Rightarrow> GeocodeAddress" where
  "addressOfString s =
     (let parts = map trim (splitOn (CHR '','') s)
      in \<lparr>a_street = None,
          a_city = (case parts of p # _ \<Rightarrow> if p = [] then None else Some p | [] \<Rightarrow> None),
          a_state = (case parts of _ # p # _ \<Rightarrow> if p = [] then None else Some p | _ \<Rightarrow> None),
          a_postalCode = None, a_country = Some ''US''\<rparr>)"

definition geocodeAddressSafe ::
  "Mapbox \<Rightarrow> geocodeCache \<Rightarrow> GeocodeAddress + string
     \<Rightarrow> GeocodeResult option \<times> geocodeCache \<times> nat" where
  "geocodeAddressSafe mb cache address =
     (let addressObj = (case address of Inl a \<Rightarrow> a | Inr s \<Rightarrow> addressOfString s)
      in case geocodeAddress mb cache addressObj of
           (Inl e, c, n) \<Rightarrow> (None, c, n)
         | (Inr r, c, n) \<Rightarrow> (Some r, c, n))"

subsection \<open>Reverse geocoding\<close>

definition featureType :: "Feature \<Rightarrow> string option" where
  "featureType f = (case place_type f of Some (t # _) \<Rightarrow> Some t | _ \<Rightarrow> None)"

definition precisionOf :: "Feature \<Rightarrow> nat" where
  "precisionOf f =
     (if featureType f = Some ''poi'' then 3
      else if featureType f = Some ''address'' then 2
      else if featureType f = Some ''street'' then 1
      else 0)"

text \<open>The loop over data.features, on the pair (feature, bestPrecision).\<close>

fun pickBest :: "Feature \<times> nat \<Rightarrow> Feature list \<Rightarrow> Feature \<times> nat" where
  "pickBest acc [] = acc"
| "pickBest (feature, bestPrecision) (f # fs) =
     (if precisionOf f > bestPrecision then pickBest (f, precisionOf f) fs
      else pickBest (feature, bestPrecision) fs)"

text \<open>\<open>s.replace(pat, rep)\<close> with a string pattern: the first occurrence only.\<close>

fun replaceFirst :: "string \<Rightarrow> string \<Rightarrow> string \<Rightarrow> string" where
  "replaceFirst pat rep [] = (if pat = [] then rep else [])"
| "replaceFirst pat rep (c # cs) =
     (if take (length pat) (c # cs) = pat then rep @ drop (length pat) (c # cs)
      else c # replaceFirst pat rep cs)"

text \<open>A value inside a template literal: undefined prints as the word.\<close>

definition templ :: "string option \<Rightarrow> string" where
  "templ x = (case x of None \<Rightarrow> ''undefined'' | Some s \<Rightarrow> s)"

definition streetOf :: "Feature \<Rightarrow> string option" where
  "streetOf feature =
     (if featureType feature = Some ''poi'' \<and> truthyStr (prop_name feature) then
        (if truthyStr (prop_address feature)
         then Some (trim (the (prop_address feature) @ '' '' @ the (prop_name feature)))
         else prop_name feature)
      else if truthyStr (prop_address feature)
        then Some (trim (the (prop_address feature) @ '' '' @ templ (f_text feature)))
      else if truthyStr (f_text feature) then f_text feature
      else None)"

text \<open>
  The loop over the context items, on (city, state, postalCode, country).
\<close>

type_synonym ctxAcc = "string option \<times> string option \<times> string option \<times> string"

definition contextStep :: "ctxAcc \<Rightarrow> ContextItem \<Rightarrow> ctxAcc" where
  "contextStep acc item =
     (case acc of (city', state', postalCode', country') \<Rightarrow>
        (let i = map_option (\<lambda>s. hd (splitOn (CHR ''.'') s)) (c_id item)
         in if i = Some ''place'' \<and> \<not> truthyStr city' then (c_text item, state', postalCode', country')
            else if i = Some ''region'' then
              (city',
               (let sc = map_option (replaceFirst ''US-'' []) (c_short_code item)
                in if truthyStr sc then sc else c_text item),
               postalCode', country')
            else if i = Some ''postcode'' then (city', state', c_text item, country')
            else if i = Some ''country'' then
              (city', state', postalCode',
               if truthyStr (c_short_code item) then the (c_short_code item) else ''US'')
            else acc))"

definition orUndefined :: "string option \<Rightarrow> string option" where
  "orUndefined x = (if truthyStr x then x else None)"

text \<open>
  reverseGeocode: throws when the token is missing; otherwise null (None) or an address.
  Every failure of the request inside the try block is caught and gives null.
\<close>

definition reverseGeocode ::
  "Mapbox \<Rightarrow> real \<Rightarrow> real \<Rightarrow> bool \<Rightarrow> geo_error + GeocodeAddress option" where
  "reverseGeocode mb lat' lon' allowImprecise =
     (if \<not> truthyStr (mapboxToken mb) then Inl TokenMissing
      else
        (case reverseLookup mb lon' lat' of
           Failed \<Rightarrow> Inr None
         | NotOk \<Rightarrow> Inr None
         | Body [] \<Rightarrow> Inr None
         | Body (f0 # fs) \<Rightarrow>
             (let feature = fst (pickBest (f0, 0) (f0 # fs));
                  ft = featureType feature;
                  isPreciseLocation = (ft = Some ''poi'' \<or> ft = Some ''address'')
              in if \<not> allowImprecise \<and> \<not> isPreciseLocation
                    \<and> (ft = Some ''place'' \<or> ft = Some ''region'')
                 then Inr None
                 else
                   (let street' = streetOf feature;
                        (city', state', postalCode', country') =
                          foldl contextStep (None, None, None, ''US'')
                            (orElse (f_context feature) [])
                    in if \<not> truthyStr street' \<and> \<not> allowImprecise then Inr None
                       else Inr (Some \<lparr>a_street = orUndefined street',
                                       a_city = orUndefined city',
                                       a_state = orUndefined state',
                                       a_postalCode = orUndefined postalCode',
                                       a_country = Some country'\<rparr>)))))"

section \<open>Salary parsing (the parseSalary functions of the ingest adapters)\<close>

text \<open>
  A JavaScript number as these functions produce it: NaN, a natural number below 2^53
  (which a double holds exactly), or Huge, a double of at least 2^53 (possibly Infinity)
  whose value the model does not determine.
\<close>

datatype jsnum = NaN | Num nat | Huge

definition isSalaryChar :: "char \<Rightarrow> bool" where
  "isSalaryChar c = (isDigit c \<or> c = CHR '','')"

text \<open>
  \<open>text.match(/[\d,]+/g)\<close>: the maximal runs of characters of the class, left to right.
  The first argument is the run being read.
\<close>

fun matchRuns :: "string \<Rightarrow> string \<Rightarrow> string list" where
  "matchRuns cur [] = (if cur = [] then [] else [cur])"
| "matchRuns cur (c # cs) =
     (if isSalaryChar c then matchRuns (cur @ [c]) cs
      else if cur = [] then matchRuns [] cs
      else cur # matchRuns [] cs)"

text \<open>
  \<open>text.match(/\$?([\d,]+)/g)\<close>: the same runs, each with the dollar sign that stands
  directly before it, if there is one. The first argument is the match being read: empty,
  a dollar sign alone, or an optional dollar sign and a run.
\<close>

fun matchDollarRuns :: "string \<Rightarrow> string \<Rightarrow> string list" where
  "matchDollarRuns cur [] = (if list_ex isSalaryChar cur then [cur] else [])"
| "matchDollarRuns cur (c # cs) =
     (if isSalaryChar c then matchDollarRuns (cur @ [c]) cs
      else (if list_ex isSalaryChar cur then [cur] else [])
           @ matchDollarRuns (if c = CHR ''$'' then ''$'' else []) cs)"

definition digitVal :: "char \<Rightarrow> nat" where
  "digitVal c = of_char c - 48"

text \<open>The number that the digits of a string spell, read in base ten.\<close>

definition decimalValue :: "string \<Rightarrow> nat" where
  "decimalValue s = foldl (\<lambda>a c. 10 * a + digitVal c) 0 (filter isDigit s)"

text \<open>
  parseInt on the strings it gets here (digits only, possibly none): the decimal value of
  the leading digits, NaN when there is no leading digit. From 2^53 on the result is the
  value rounded to a double.
\<close>

definition parseInt :: "string \<Rightarrow> jsnum" where
  "parseInt s =
     (let ds = takeWhile isDigit s
      in if ds = [] then NaN
         else if decimalValue ds < 2 ^ 53 then Num (decimalValue ds) else Huge)"

text \<open>The smaller and the larger of two numbers; a Num is below 2^53, a Huge is not.\<close>

fun min2 :: "jsnum \<Rightarrow> jsnum \<Rightarrow> jsnum" where
  "min2 NaN _ = NaN"
| "min2 _ NaN = NaN"
| "min2 (Num a) (Num b) = Num (min a b)"
| "min2 (Num a) Huge = Num a"
| "min2 Huge (Num b) = Num b"
| "min2 Huge Huge = Huge"

fun max2 :: "jsnum \<Rightarrow> jsnum \<Rightarrow> jsnum" where
  "max2 NaN _ = NaN"
| "max2 _ NaN = NaN"
| "max2 (Num a) (Num b) = Num (max a b)"
| "max2 (Num a) Huge = Huge"
| "max2 Huge (Num b) = Huge"
| "max2 Huge Huge = Huge"

text \<open>Math.min and Math.max on the elements of a non-empty array (first element, rest).\<close>

definition mathMin :: "jsnum \<Rightarrow> jsnum list \<Rightarrow> jsnum" where
  "mathMin n ns = foldl min2 n ns"

definition mathMax :: "jsnum \<Rightarrow> jsnum list \<Rightarrow> jsnum" where
  "mathMax n ns = foldl max2 n ns"

fun truthyJs :: "jsnum \<Rightarrow> bool" where
  "truthyJs NaN = False"
| "truthyJs (Num n) = (n \<noteq> 0)"
| "truthyJs Huge = True"

text \<open>\<open>x < k\<close> for a bound k of at most 2^53.\<close>

fun lessJs :: "jsnum \<Rightarrow> nat \<Rightarrow> bool" where
  "lessJs NaN k = False"
| "lessJs (Num n) k = (n < k)"
| "lessJs Huge k = False"

text \<open>\<open>x * k\<close> for a positive factor k.\<close>

fun timesJs :: "jsnum \<Rightarrow> nat \<Rightarrow> jsnum" where
  "timesJs NaN k = NaN"
| "timesJs (Num n) k = (if n * k < 2 ^ 53 then Num (n * k) else Huge)"
| "timesJs Huge k = Huge"

text \<open>
  parseSalary of ingest/arizona-job-connection.ts. The result is (payMin, payMax); a field
  that is missing or undefined in the returned object is None.
\<close>

definition parseSalary_arizona :: "string option \<Rightarrow> jsnum option \<times> jsnum option" where
  "parseSalary_arizona salaryText =
     (if \<not> truthyStr salaryText then (None, None)
      else
        (let numbers = map (\<lambda>n. parseInt (filter (\<lambda>c. c \<noteq> CHR '','') n))
                         (matchRuns [] (the salaryText))
         in case numbers of
              [] \<Rightarrow> (None, None)
            | n # ns \<Rightarrow>
                (let payMin = (if ns = [] then n else mathMin n ns);
                     payMax = (if ns = [] then n else mathMax n ns)
                 in if truthyJs payMax \<and> lessJs payMax 100
                    then (if truthyJs payMin then Some (timesJs payMin 2080) else None,
                          Some (timesJs payMax 2080))
                    else (Some payMin, Some payMax))))"

text \<open>parseSalary of the Indeed adapter (the ZipRecruiter adapter has the same text).\<close>

definition parseSalary_indeed :: "string option \<Rightarrow> jsnum option \<times> jsnum option" where
  "parseSalary_indeed salaryStr =
     (if \<not> truthyStr salaryStr then (None, None)
      else
        (let numbers = matchDollarRuns [] (the salaryStr)
         in if numbers = [] then (None, None)
            else
              (let amounts = filter (\<lambda>n. n \<noteq> NaN)
                     (map (\<lambda>n. parseInt (filter (\<lambda>c. c \<noteq> CHR ''$'' \<and> c \<noteq> CHR '','') n))
                        numbers)
               in case amounts of
                    [] \<Rightarrow> (None, None)
                  | [a] \<Rightarrow> (Some a, Some a)
                  | a # as \<Rightarrow> (Some (mathMin a as), Some (mathMax a as)))))"

section \<open>Table constraints and example data\<close>

text \<open>
  The constraints of the table jobs (migration.sql): the primary key on id and the unique
  index on (source, sourceId).
\<close>

definition tableOk :: "Job list \<Rightarrow> bool" where
  "tableOk jobs =
     (distinct (map jobId jobs) \<and> distinct (map (\<lambda>j. (source j, sourceId j)) jobs))"

text \<open>
  A job input that upsertJob and the table accept: the sourceId is not blank (the guard of
  upsertJob) and every value fits its column.
\<close>

definition validInput :: "Postgres \<Rightarrow> JobInput \<Rightarrow> bool" where
  "validInput pg d =
     (trim (d_sourceId d) \<noteq> [] \<and> storableText (d_sourceId d)
      \<and> acceptsSource pg (d_source d) \<and> rowAccepted pg d)"

text \<open>
  The row that upsertJob leaves in place of an existing row: the UPDATE, and the new point
  when the coordinates differ (used to state the lemmas about the update path).
\<close>

definition rowAfterUpdate :: "int \<Rightarrow> JobInput \<Rightarrow> Job \<Rightarrow> Job" where
  "rowAfterUpdate now d old =
     (if latitude old \<noteq> d_latitude d \<or> longitude old \<noteq> d_longitude d
      then (updateRow now d old)\<lparr>locationPoint := (d_longitude d, d_latitude d)\<rparr>
      else updateRow now d old)"

text \<open>Concrete inputs on which the theorems below are instantiated.\<close>

definition exEnv :: SqlEnv where
  "exEnv = \<lparr>toNumber = (\<lambda>s. 0), st_intersects = (\<lambda>pt box. True),
            sql_like = (\<lambda>v pat. True), sql_lower = toLowerCase,
            daysBefore = (\<lambda>t n. t - n * 86400000)\<rparr>"

definition exJob :: "string \<Rightarrow> JobStatus \<Rightarrow> string option \<Rightarrow> int \<Rightarrow> Job" where
  "exJob i st str t =
     \<lparr>jobId = i, source = ADZUNA, sourceId = ''a-'' @ i, title = ''Software Engineer'',
      company = ''Tech Corp'', description = ''Builds software'', url = ''https://example.com'',
      street = str, city = Some ''Phoenix'', state = Some ''AZ'', postalCode = Some ''85004'',
      country = ''US'', latitude = 33, longitude = -112, locationPoint = (-112, 33),
      employmentType = Some FULL_TIME, payMin = Some 50000, payMax = Some 70000,
      payCurrency = Some ''USD'', status = st, postedAt = t, createdAt = 0, updatedAt = 0\<rparr>"

definition exParams :: SearchParams where
  "exParams = \<lparr>sp_bbox = ''-113,33,-111,34'', sp_q = None, sp_company = None,
               sp_minPay = None, sp_maxAgeDays = None, sp_type = None, sp_types = None,
               sp_limit = None\<rparr>"

definition typeOnlyParams :: SearchParams where
  "typeOnlyParams = exParams\<lparr>sp_type := Some FULL_TIME, sp_limit := Some 200\<rparr>"

definition exPostgres :: Postgres where
  "exPostgres = \<lparr>acceptsTimestamp = (\<lambda>t. 0 \<le> t), acceptsSource = (\<lambda>s. True)\<rparr>"

definition exInput :: JobInput where
  "exInput =
     \<lparr>d_source = ADZUNA, d_sourceId = ''a-1'', d_title = ''Senior Engineer'',
      d_company = ''Tech Corp'', d_description = ''Builds more software'',
      d_url = ''https://example.com/1'', d_street = Some ''200 W Washington St'',
      d_city = Some ''Phoenix'', d_state = Some ''AZ'', d_postalCode = Some ''85003'',
      d_country = None, d_latitude = 34, d_longitude = -112, d_employmentType = Some CONTRACT,
      d_payMin = None, d_payMax = Some 90000, d_payCurrency = None, d_postedAt = 8,
      d_status = None\<rparr>"

definition exMapbox :: Mapbox where
  "exMapbox = \<lparr>mapboxToken = Some ''pk.test'',
               cityLookup = (\<lambda>q. Body [Some (-112, 33)]),
               forwardLookup = (\<lambda>q c p. Body [(-112.074, 33.4484)]),
               reverseLookup = (\<lambda>x y. Body [])\<rparr>"

definition exAddress :: GeocodeAddress where
  "exAddress = \<lparr>a_street = Some ''123 N Central Ave'', a_city = Some ''Phoenix'',
                a_state = Some ''AZ'', a_postalCode = Some ''85004'', a_country = Some ''US''\<rparr>"

text \<open>
  The vocabulary of the statement about cache keys: two strings that are the same up to
  letter case and to white space around them, two address components that are equal or are
  both non-empty and the same in that sense, and two countries that are the same component
  or are an absent country and \<open>US\<close>.
\<close>

definition sameUpToCaseAndPadding :: "string \<Rightarrow> string \<Rightarrow> bool" where
  "sameUpToCaseAndPadding s t =
     (\<exists>l r l' r' u v. list_all isSpace l \<and> list_all isSpace r \<and> list_all isSpace l'
        \<and> list_all isSpace r' \<and> s = l @ u @ r \<and> t = l' @ v @ r'
        \<and> toLowerCase u = toLowerCase v)"

definition sameComponent :: "string option \<Rightarrow> string option \<Rightarrow> bool" where
  "sameComponent x y =
     (x = y \<or> (\<exists>s t. x = Some s \<and> y = Some t \<and> s \<noteq> [] \<and> t \<noteq> []
                  \<and> sameUpToCaseAndPadding s t))"

definition sameCountry :: "string option \<Rightarrow> string option \<Rightarrow> bool" where
  "sameCountry x y =
     (sameComponent x y \<or> (x = None \<and> y = Some ''US'') \<or> (x = Some ''US'' \<and> y = None))"

text \<open>The entries that one address component contributes to the key (none or one).\<close>

definition keyPart :: "string option \<Rightarrow> string list" where
  "keyPart x = (if truthyStr x then [trim (toLowerCase (the x))] else [])"

definition exAddressVariant :: GeocodeAddress where
  "exAddressVariant = \<lparr>a_street = Some ''  123 n CENTRAL ave '', a_city = Some ''PHOENIX'',
                a_state = Some ''AZ'', a_postalCode = Some ''85004'', a_country = None\<rparr>"

definition exPlace :: Feature where
  "exPlace = \<lparr>place_type = Some [''place''], f_context = None, f_text = Some ''Phoenix'',
              prop_address = None, prop_name = None\<rparr>"

definition exPoi :: Feature where
  "exPoi = \<lparr>place_type = Some [''poi'', ''address''],
            f_context = Some [\<lparr>c_id = Some ''place.123'', c_text = Some ''Phoenix'', c_short_code = None\<rparr>,
                              \<lparr>c_id = Some ''region.9'', c_text = Some ''Arizona'',
                               c_short_code = Some ''US-AZ''\<rparr>],
            f_text = Some ''Cafe Uno'', prop_address = Some ''100 N 1st Ave'',
            prop_name = Some ''Cafe Uno''\<rparr>"

definition exReverse :: "Feature list \<Rightarrow> Mapbox" where
  "exReverse fs = \<lparr>mapboxToken = Some ''pk.test'', cityLookup = (\<lambda>q. Failed),
                   forwardLookup = (\<lambda>q c p. Failed), reverseLookup = (\<lambda>x y. Body fs)\<rparr>"

section \<open>Properties of the search route\<close>

lemma queryJobs_rows:
  assumes "queryJobs env now jobs p = Inr rows" and "j \<in> set rows"
  shows "j \<in> set jobs \<and> status j = APPROVED \<and> (\<exists>s. street j = Some s \<and> s \<noteq> [])"
proof -
  from assms(1) obtain tys where
    rows: "rows = take (nat (the (sp_limit p)))
             (sort_key (\<lambda>j. - postedAt j) (filter (whereClause env now p tys) jobs))"
    by (auto simp: queryJobs_def split: sum.splits)
  from assms(2) have "j \<in> set (filter (whereClause env now p tys) jobs)"
    unfolding rows by (auto dest: in_set_takeD)
  then have "j \<in> set jobs" and w: "whereClause env now p tys j" by auto
  from w have "status j = APPROVED" and "case street j of None \<Rightarrow> False | Some s \<Rightarrow> s \<noteq> []"
    by (simp_all add: whereClause_def)
  with \<open>j \<in> set jobs\<close> show ?thesis by (auto split: option.splits)
qed

lemma searchHandler_MISS:
  assumes "searchHandler env now jobs r raw = (Inr (res, MISS), r')"
  shows "\<exists>params rows. searchQuerySchema raw = Inr params
           \<and> queryJobs env now jobs params = Inr rows
           \<and> res = \<lparr>r_jobs = map jobToPin rows, r_count = length rows\<rparr>
           \<and> r' = setCache r (searchCacheKey params) res (searchTtl params)"
  using assms
  by (auto simp: searchHandler_def Let_def split: sum.splits option.splits)

lemma ex_search:
  "searchHandler exEnv 0 [exJob ''1'' APPROVED (Some ''123 Main St'') 5, exJob ''2'' PENDING (Some ''1 Elm St'') 6,
      exJob ''3'' APPROVED None 7, exJob ''4'' APPROVED (Some []) 7] None exParams
   = (Inr (\<lparr>r_jobs = [jobToPin (exJob ''1'' APPROVED (Some ''123 Main St'') 5)], r_count = 1\<rparr>, MISS), None)"
  by (simp add: searchHandler_def searchQuerySchema_def exParams_def isBboxNumber_def isDigit_def
      searchCacheKey_def getCache_def setCache_def queryJobs_def typeFilter_def truthyStr_def truthyNum_def
      whereClause_def exEnv_def exJob_def Let_def searchTtl_def)

lemma ex_search_then_rejected:
  "snd (searchHandler exEnv 0 [exJob ''1'' APPROVED (Some ''123 Main St'') 5] (Some Map.empty)
          exParams)
     = Some [searchCacheKey (exParams\<lparr>sp_limit := Some 200\<rparr>) \<mapsto>
              (300, \<lparr>r_jobs = [jobToPin (exJob ''1'' APPROVED (Some ''123 Main St'') 5)],
                     r_count = 1\<rparr>)]"
  "fst (searchHandler exEnv 1 [exJob ''1'' REJECTED (Some ''123 Main St'') 5]
          (Some [searchCacheKey (exParams\<lparr>sp_limit := Some 200\<rparr>) \<mapsto>
                  (300, \<lparr>r_jobs = [jobToPin (exJob ''1'' APPROVED (Some ''123 Main St'') 5)],
                         r_count = 1\<rparr>)])
          exParams)
     = Inr (\<lparr>r_jobs = [jobToPin (exJob ''1'' APPROVED (Some ''123 Main St'') 5)], r_count = 1\<rparr>,
            HIT)"
  "jobToPin (exJob ''1'' APPROVED (Some ''123 Main St'') 5)
     = jobToPin (exJob ''1'' REJECTED (Some ''123 Main St'') 5)"
  by (simp_all add: searchHandler_def searchQuerySchema_def exParams_def isBboxNumber_def
      isDigit_def searchCacheKey_def getCache_def setCache_def queryJobs_def typeFilter_def
      truthyStr_def truthyNum_def whereClause_def exEnv_def exJob_def jobToPin_def Let_def
      searchTtl_def)

text \<open>
  C1. The claim fails for a reply from the cache. A search stores its result while the row
  is APPROVED; after the row has become REJECTED, the same search is a hit and returns the
  stored pin, which is the pin of the row that is now REJECTED, without reading the table.
\<close>

theorem search_cache_hit_counterexample:
  "snd (searchHandler exEnv 0 [exJob ''1'' APPROVED (Some ''123 Main St'') 5] (Some Map.empty)
          exParams)
     = Some [searchCacheKey (exParams\<lparr>sp_limit := Some 200\<rparr>) \<mapsto>
              (300, \<lparr>r_jobs = [jobToPin (exJob ''1'' APPROVED (Some ''123 Main St'') 5)],
                     r_count = 1\<rparr>)]
   \<and> fst (searchHandler exEnv 1 [exJob ''1'' REJECTED (Some ''123 Main St'') 5]
          (Some [searchCacheKey (exParams\<lparr>sp_limit := Some 200\<rparr>) \<mapsto>
                  (300, \<lparr>r_jobs = [jobToPin (exJob ''1'' APPROVED (Some ''123 Main St'') 5)],
                         r_count = 1\<rparr>)])
          exParams)
     = Inr (\<lparr>r_jobs = [jobToPin (exJob ''1'' APPROVED (Some ''123 Main St'') 5)], r_count = 1\<rparr>,
            HIT)
   \<and> jobToPin (exJob ''1'' APPROVED (Some ''123 Main St'') 5)
       = jobToPin (exJob ''1'' REJECTED (Some ''123 Main St'') 5)
   \<and> status (exJob ''1'' REJECTED (Some ''123 Main St'') 5) = REJECTED"
  using ex_search_then_rejected by (simp add: exJob_def)

text \<open>
  C1, as amended. A reply is computed from the table (MISS) or taken from the cache (HIT).
  Every pin of a computed reply comes from a stored row whose status is APPROVED and whose
  street is neither NULL nor the empty string, whatever the bounding box and the filters
  are. A reply from the cache is the result stored under the key of the same parameters,
  returned as it is, and the cache is left unchanged.
\<close>

theorem search_returns_only_approved_with_street:
  assumes "searchHandler env now jobs r raw = (Inr (res, x), r')"
  shows "(x = MISS \<longrightarrow>
            (\<forall>pin \<in> set (r_jobs res).
               \<exists>j \<in> set jobs. pin = jobToPin j \<and> status j = APPROVED
                  \<and> (\<exists>s. street j = Some s \<and> s \<noteq> [])))
         \<and> (x = HIT \<longrightarrow>
            (\<exists>params. searchQuerySchema raw = Inr params
               \<and> getCache r (searchCacheKey params) = Some res) \<and> r' = r)"
proof (intro conjI impI ballI)
  fix pin
  assume "x = MISS" and pin: "pin \<in> set (r_jobs res)"
  with assms have miss: "searchHandler env now jobs r raw = (Inr (res, MISS), r')" by simp
  from searchHandler_MISS[OF miss] obtain params rows where
    q: "queryJobs env now jobs params = Inr rows" and
    res: "res = \<lparr>r_jobs = map jobToPin rows, r_count = length rows\<rparr>" by blast
  from pin res obtain j where "j \<in> set rows" and "pin = jobToPin j" by auto
  with queryJobs_rows[OF q] show "\<exists>j \<in> set jobs. pin = jobToPin j \<and> status j = APPROVED
            \<and> (\<exists>s. street j = Some s \<and> s \<noteq> [])" by blast
next
  assume "x = HIT"
  with assms show "\<exists>params. searchQuerySchema raw = Inr params
               \<and> getCache r (searchCacheKey params) = Some res"
    by (auto simp: searchHandler_def Let_def split: sum.splits option.splits)
next
  assume "x = HIT"
  with assms show "r' = r"
    by (auto simp: searchHandler_def Let_def split: sum.splits option.splits)
qed

theorem search_approved_witness:
  "searchHandler exEnv 0
     [exJob ''1'' APPROVED (Some ''123 Main St'') 5, exJob ''2'' PENDING (Some ''1 Elm St'') 6,
      exJob ''3'' APPROVED None 7, exJob ''4'' APPROVED (Some []) 7] None exParams
   = (Inr (\<lparr>r_jobs = [jobToPin (exJob ''1'' APPROVED (Some ''123 Main St'') 5)], r_count = 1\<rparr>,
           MISS), None)
   \<and> (\<exists>j \<in> set [exJob ''1'' APPROVED (Some ''123 Main St'') 5,
                   exJob ''2'' PENDING (Some ''1 Elm St'') 6,
                   exJob ''3'' APPROVED None 7, exJob ''4'' APPROVED (Some []) 7].
          jobToPin (exJob ''1'' APPROVED (Some ''123 Main St'') 5) = jobToPin j
          \<and> status j = APPROVED \<and> (\<exists>s. street j = Some s \<and> s \<noteq> []))"
  using search_returns_only_approved_with_street [OF ex_search] ex_search
  by simp

lemma length_queryJobs:
  assumes "queryJobs env now jobs p = Inr rows"
  shows "\<exists>tys. typeFilter p = Inr tys
           \<and> length rows = min (nat (the (sp_limit p)))
                              (length (filter (whereClause env now p tys) jobs))"
  using assms by (auto simp: queryJobs_def split: sum.splits)

lemma ex_search_limit1:
  "searchHandler exEnv 0
     [exJob ''1'' APPROVED (Some ''123 Main St'') 5, exJob ''2'' APPROVED (Some ''1 Elm St'') 6]
     None (exParams\<lparr>sp_limit := Some 1\<rparr>)
   = (Inr (\<lparr>r_jobs = [jobToPin (exJob ''2'' APPROVED (Some ''1 Elm St'') 6)], r_count = 1\<rparr>,
           MISS), None)"
  by (simp add: searchHandler_def searchQuerySchema_def exParams_def isBboxNumber_def isDigit_def
      searchCacheKey_def getCache_def setCache_def queryJobs_def typeFilter_def truthyStr_def truthyNum_def
      whereClause_def exEnv_def exJob_def Let_def searchTtl_def)

text \<open>
  C2. The claim that count is the number of all matching rows, also those beyond limit,
  fails: with two matching rows and limit 1 the handler answers count 1.
\<close>

theorem search_count_counterexample:
  "fst (searchHandler exEnv 0
     [exJob ''1'' APPROVED (Some ''123 Main St'') 5, exJob ''2'' APPROVED (Some ''1 Elm St'') 6]
     None (exParams\<lparr>sp_limit := Some 1\<rparr>))
   = Inr (\<lparr>r_jobs = [jobToPin (exJob ''2'' APPROVED (Some ''1 Elm St'') 6)], r_count = 1\<rparr>, MISS)
   \<and> length (filter (whereClause exEnv 0 (exParams\<lparr>sp_limit := Some 1\<rparr>) None)
        [exJob ''1'' APPROVED (Some ''123 Main St'') 5, exJob ''2'' APPROVED (Some ''1 Elm St'') 6]) = 2"
  by (simp add: ex_search_limit1)
     (simp add: whereClause_def exEnv_def exJob_def exParams_def truthyStr_def truthyNum_def)

text \<open>
  C2, as amended. The count of a computed result is the length of the returned list of
  pins, which is the smaller of limit and the number of rows that match.
\<close>

theorem search_count_is_length_of_list:
  assumes "searchHandler env now jobs r raw = (Inr (res, MISS), r')"
  shows "r_count res = length (r_jobs res)
         \<and> (\<exists>params tys. searchQuerySchema raw = Inr params \<and> typeFilter params = Inr tys
               \<and> r_count res = min (nat (the (sp_limit params)))
                                   (length (filter (whereClause env now params tys) jobs)))"
proof -
  from searchHandler_MISS[OF assms] obtain params rows where
    v: "searchQuerySchema raw = Inr params" and
    q: "queryJobs env now jobs params = Inr rows" and
    res: "res = \<lparr>r_jobs = map jobToPin rows, r_count = length rows\<rparr>" by blast
  from length_queryJobs[OF q] obtain tys where
    "typeFilter params = Inr tys"
    "length rows = min (nat (the (sp_limit params)))
                      (length (filter (whereClause env now params tys) jobs))" by blast
  with v res show ?thesis by auto
qed

theorem search_count_witness:
  "searchHandler exEnv 0
     [exJob ''1'' APPROVED (Some ''123 Main St'') 5, exJob ''2'' APPROVED (Some ''1 Elm St'') 6]
     None (exParams\<lparr>sp_limit := Some 1\<rparr>)
   = (Inr (\<lparr>r_jobs = [jobToPin (exJob ''2'' APPROVED (Some ''1 Elm St'') 6)], r_count = 1\<rparr>,
           MISS), None)
   \<and> r_count \<lparr>r_jobs = [jobToPin (exJob ''2'' APPROVED (Some ''1 Elm St'') 6)], r_count = 1\<rparr>
       = length (r_jobs \<lparr>r_jobs = [jobToPin (exJob ''2'' APPROVED (Some ''1 Elm St'') 6)], r_count = 1\<rparr>)"
  using search_count_is_length_of_list [OF ex_search_limit1] ex_search_limit1
  by simp

text \<open>
  C3. A search whose only optional filter is the employment type is stored with a TTL of
  300 seconds: the test that chooses 180 looks at q, company, minPay and maxAgeDays only.
\<close>

theorem type_only_search_cached_for_300:
  "map_option fst
     (the (snd (searchHandler env now jobs (Some Map.empty) typeOnlyParams))
        (searchCacheKey typeOnlyParams)) = Some 300"
  by (simp add: searchHandler_def searchQuerySchema_def typeOnlyParams_def exParams_def
      isBboxNumber_def isDigit_def getCache_def setCache_def queryJobs_def typeFilter_def
      truthyStr_def truthyNum_def searchTtl_def searchCacheKey_def Let_def)

section \<open>Properties of upsertJob\<close>

lemma trim_Nil [simp]: "trim [] = []"
  by (simp add: trim_def)

lemma jobId_updateRow [simp]: "jobId (updateRow now d j) = jobId j"
  by (simp add: updateRow_def Let_def split: option.splits)

lemma key_updateRow [simp]:
  "source (updateRow now d j) = source j" "sourceId (updateRow now d j) = sourceId j"
  by (simp_all add: updateRow_def Let_def split: option.splits)

lemma rowAfterUpdate_keys [simp]:
  "jobId (rowAfterUpdate now d j) = jobId j"
  "source (rowAfterUpdate now d j) = source j"
  "sourceId (rowAfterUpdate now d j) = sourceId j"
  by (simp_all add: rowAfterUpdate_def)

lemma updateWhereId_twice:
  assumes "\<And>j. jobId (f j) = jobId j"
  shows "updateWhereId i g (updateWhereId i f jobs) = updateWhereId i (g \<circ> f) jobs"
  using assms by (induction jobs) (auto simp: updateWhereId_def)

lemma map_updateWhereId:
  assumes "\<And>j. h (f j) = h j"
  shows "map h (updateWhereId i f jobs) = map h jobs"
  using assms by (induction jobs) (auto simp: updateWhereId_def)

lemma selectById_updateWhereId:
  assumes "distinct (map jobId jobs)" and "old \<in> set jobs" and "jobId (f old) = jobId old"
  shows "selectById (updateWhereId (jobId old) f jobs) (jobId old) = [f old]"
  using assms
proof (induction jobs)
  case Nil
  then show ?case by simp
next
  case (Cons a jobs)
  show ?case
  proof (cases "a = old")
    case True
    with Cons.prems have "\<forall>j \<in> set jobs. jobId j \<noteq> jobId old" by (auto simp: image_iff)
    then have "filter (\<lambda>j. jobId j = jobId old) (map (\<lambda>j. if jobId j = jobId old then f j else j) jobs) = []"
      by (induction jobs) auto
    with True Cons.prems show ?thesis by (simp add: selectById_def updateWhereId_def)
  next
    case False
    with Cons.prems have "old \<in> set jobs" and "jobId a \<noteq> jobId old" by (auto simp: image_iff)
    with Cons show ?thesis by (simp add: selectById_def updateWhereId_def)
  qed
qed

lemma existingJobs_head:
  assumes "existingJobs jobs d = old # rest"
  shows "old \<in> set jobs \<and> source old = d_source d \<and> sourceId old = d_sourceId d"
proof -
  have "old \<in> set (existingJobs jobs d)" using assms by simp
  then show ?thesis by (auto simp: existingJobs_def)
qed

lemma upsert_update_path:
  assumes ok: "tableOk jobs" and acc: "validInput pg d"
      and ex: "existingJobs jobs d = old # rest"
  shows "upsertJob pg now newId jobs d
           = Inr (updateWhereId (jobId old) (rowAfterUpdate now d) jobs,
                  Some (rowAfterUpdate now d old), False)"
    and "selectById (updateWhereId (jobId old) (rowAfterUpdate now d) jobs) (jobId old)
           = [rowAfterUpdate now d old]"
proof -
  from existingJobs_head[OF ex] have mem: "old \<in> set jobs" by auto
  from acc have valid: "d_sourceId d \<noteq> []" "trim (d_sourceId d) \<noteq> []"
    "storableText (d_sourceId d)" "acceptsSource pg (d_source d)" "rowAccepted pg d"
    by (auto simp: validInput_def)
  from ok have dist: "distinct (map jobId jobs)" by (simp add: tableOk_def)
  show sel: "selectById (updateWhereId (jobId old) (rowAfterUpdate now d) jobs) (jobId old)
           = [rowAfterUpdate now d old]"
    by (rule selectById_updateWhereId[OF dist mem]) simp
  have comp: "setJobLocationPoint (jobId old) (d_longitude d) (d_latitude d)
                (updateWhereId (jobId old) (updateRow now d) jobs)
              = updateWhereId (jobId old)
                  (\<lambda>j. (updateRow now d j)\<lparr>locationPoint := (d_longitude d, d_latitude d)\<rparr>) jobs"
    by (simp add: setJobLocationPoint_def updateWhereId_twice comp_def)
  have same: "updateWhereId (jobId old) (rowAfterUpdate now d) jobs
        = (if latitude old \<noteq> d_latitude d \<or> longitude old \<noteq> d_longitude d
           then updateWhereId (jobId old)
                  (\<lambda>j. (updateRow now d j)\<lparr>locationPoint := (d_longitude d, d_latitude d)\<rparr>) jobs
           else updateWhereId (jobId old) (updateRow now d) jobs)"
    using dist mem
  proof (induction jobs)
    case Nil
    then show ?case by simp
  next
    case (Cons a jobs)
    show ?case
    proof (cases "a = old")
      case True
      with Cons.prems have "\<forall>j \<in> set jobs. jobId j \<noteq> jobId old" by (auto simp: image_iff)
      then have "\<And>f. map (\<lambda>j. if jobId j = jobId old then f j else j) jobs = jobs"
        by (induction jobs) auto
      with True show ?thesis by (simp add: updateWhereId_def rowAfterUpdate_def)
    next
      case False
      with Cons.prems have "old \<in> set jobs" and "jobId a \<noteq> jobId old" by (auto simp: image_iff)
      with Cons show ?thesis by (auto simp: updateWhereId_def)
    qed
  qed
  show "upsertJob pg now newId jobs d
           = Inr (updateWhereId (jobId old) (rowAfterUpdate now d) jobs,
                  Some (rowAfterUpdate now d old), False)"
  proof (cases "latitude old \<noteq> d_latitude d \<or> longitude old \<noteq> d_longitude d")
    case True
    with same comp have
      "setJobLocationPoint (jobId old) (d_longitude d) (d_latitude d)
         (updateWhereId (jobId old) (updateRow now d) jobs)
       = updateWhereId (jobId old) (rowAfterUpdate now d) jobs" by simp
    with True valid ex sel show ?thesis
      by (simp add: upsertJob_def Let_def)
  next
    case False
    with same have "updateWhereId (jobId old) (updateRow now d) jobs
       = updateWhereId (jobId old) (rowAfterUpdate now d) jobs" by simp
    with False valid ex sel show ?thesis
      by (simp add: upsertJob_def Let_def)
  qed
qed

lemma upsert_create_path:
  assumes acc: "validInput pg d" and ex: "existingJobs jobs d = []"
      and fresh: "newId \<notin> set (map jobId jobs)"
  shows "upsertJob pg now newId jobs d
           = Inr (jobs @ [insertRow now newId d], Some (insertRow now newId d), True)"
proof -
  from acc have valid: "d_sourceId d \<noteq> []" "trim (d_sourceId d) \<noteq> []"
    "storableText (d_sourceId d)" "acceptsSource pg (d_source d)" "rowAccepted pg d"
    by (auto simp: validInput_def)
  from fresh have "filter (\<lambda>j. jobId j = newId) jobs = []"
    by (auto simp: filter_empty_conv)
  then have "selectById (jobs @ [insertRow now newId d]) newId = [insertRow now newId d]"
    by (simp add: selectById_def insertRow_def)
  with valid ex fresh show ?thesis
    by (simp add: upsertJob_def Let_def)
qed

lemma tableOk_update:
  assumes "tableOk jobs"
  shows "tableOk (updateWhereId i (rowAfterUpdate now d) jobs)"
proof -
  have "map jobId (updateWhereId i (rowAfterUpdate now d) jobs) = map jobId jobs"
    by (rule map_updateWhereId) simp
  moreover have "map (\<lambda>j. (source j, sourceId j)) (updateWhereId i (rowAfterUpdate now d) jobs)
      = map (\<lambda>j. (source j, sourceId j)) jobs"
    by (rule map_updateWhereId) simp
  ultimately show ?thesis using assms by (simp add: tableOk_def)
qed

lemma tableOk_insert:
  assumes "tableOk jobs" and "existingJobs jobs d = []"
      and "newId \<notin> set (map jobId jobs)"
  shows "tableOk (jobs @ [insertRow now newId d])"
proof -
  from assms(2) have "(d_source d, d_sourceId d) \<notin> set (map (\<lambda>j. (source j, sourceId j)) jobs)"
    by (auto simp: existingJobs_def filter_empty_conv)
  with assms(1,3) show ?thesis
    by (auto simp: tableOk_def insertRow_def)
qed

lemma selectById_nonempty:
  assumes "i \<in> set (map jobId xs)"
  shows "selectById xs i \<noteq> []"
  using assms by (induction xs) (auto simp: selectById_def)

lemma trim_a1: "trim ''a-1'' = ''a-1''"
  by code_simp

lemma exInput_valid: "validInput exPostgres exInput"
  by (simp add: validInput_def rowAccepted_def storableText_def storableOpt_def
      inIntegerColumn_def exInput_def exPostgres_def trim_a1)

lemma upsert_refused:
  assumes "\<not> validInput pg d"
  shows "\<exists>e. upsertJob pg now newId jobs d = Inl e"
  using assms
  by (auto simp: upsertJob_def validInput_def split: list.splits)

text \<open>
  C4. The claim fails for a call that the database refuses: the key matches a stored row
  and the input has no status, but payMax does not fit the INTEGER column, so the UPDATE
  throws and no field of the row is overwritten.
\<close>

theorem upsert_pay_out_of_range_counterexample:
  "existingJobs [exJob ''1'' REJECTED (Some ''123 Main St'') 5]
       (exInput\<lparr>d_payMax := Some 6025551234\<rparr>)
     = [exJob ''1'' REJECTED (Some ''123 Main St'') 5]
   \<and> d_status (exInput\<lparr>d_payMax := Some 6025551234\<rparr>) = None
   \<and> upsertJob exPostgres 9 ''c9'' [exJob ''1'' REJECTED (Some ''123 Main St'') 5]
         (exInput\<lparr>d_payMax := Some 6025551234\<rparr>) = Inl DatabaseError"
  by (simp add: upsertJob_def existingJobs_def exJob_def exInput_def trim_a1 storableText_def
      rowAccepted_def storableOpt_def inIntegerColumn_def exPostgres_def)

text \<open>
  C4, as amended. Let the key (source, sourceId) of the input match a stored row and let
  the input have no status. If the input is one that upsertJob and the table accept, the
  call updates that row: its status is the one it had, the fields of the SET list are those
  of the input (country and payCurrency with their defaults), the point is the new one
  exactly when a coordinate differs from the stored one, and the other rows are as before.
  Otherwise the call throws and writes nothing.
\<close>

theorem upsert_existing_keeps_status:
  assumes "tableOk jobs" and "existingJobs jobs d = old # rest" and "d_status d = None"
  shows "(validInput pg d \<longrightarrow>
           (\<exists>jobs' j. upsertJob pg now newId jobs d = Inr (jobs', Some j, False)
              \<and> selectById jobs' (jobId old) = [j]
              \<and> status j = status old
              \<and> title j = d_title d \<and> company j = d_company d
              \<and> description j = d_description d \<and> url j = d_url d
              \<and> street j = d_street d \<and> city j = d_city d \<and> state j = d_state d
              \<and> postalCode j = d_postalCode d \<and> country j = orElse (d_country d) ''US''
              \<and> latitude j = d_latitude d \<and> longitude j = d_longitude d
              \<and> employmentType j = d_employmentType d
              \<and> payMin j = d_payMin d \<and> payMax j = d_payMax d
              \<and> payCurrency j = Some (orElse (d_payCurrency d) ''USD'')
              \<and> postedAt j = d_postedAt d
              \<and> locationPoint j =
                  (if latitude old \<noteq> d_latitude d \<or> longitude old \<noteq> d_longitude d
                   then (d_longitude d, d_latitude d) else locationPoint old)
              \<and> jobId j = jobId old \<and> source j = source old \<and> sourceId j = sourceId old
              \<and> createdAt j = createdAt old
              \<and> filter (\<lambda>k. jobId k \<noteq> jobId old) jobs'
                  = filter (\<lambda>k. jobId k \<noteq> jobId old) jobs))
         \<and> (\<not> validInput pg d \<longrightarrow> (\<exists>e. upsertJob pg now newId jobs d = Inl e))"
proof (intro conjI impI)
  assume acc: "validInput pg d"
  let ?j = "rowAfterUpdate now d old"
  let ?jobs' = "updateWhereId (jobId old) (rowAfterUpdate now d) jobs"
  have frame: "filter (\<lambda>k. jobId k \<noteq> jobId old) ?jobs' = filter (\<lambda>k. jobId k \<noteq> jobId old) jobs"
    by (induction jobs) (auto simp: updateWhereId_def)
  have fields: "status ?j = status old \<and> title ?j = d_title d \<and> company ?j = d_company d
           \<and> description ?j = d_description d \<and> url ?j = d_url d
           \<and> street ?j = d_street d \<and> city ?j = d_city d \<and> state ?j = d_state d
           \<and> postalCode ?j = d_postalCode d \<and> country ?j = orElse (d_country d) ''US''
           \<and> latitude ?j = d_latitude d \<and> longitude ?j = d_longitude d
           \<and> employmentType ?j = d_employmentType d
           \<and> payMin ?j = d_payMin d \<and> payMax ?j = d_payMax d
           \<and> payCurrency ?j = Some (orElse (d_payCurrency d) ''USD'')
           \<and> postedAt ?j = d_postedAt d \<and> createdAt ?j = createdAt old"
    using assms(3) by (simp add: rowAfterUpdate_def updateRow_def Let_def)
  have loc: "locationPoint ?j =
               (if latitude old \<noteq> d_latitude d \<or> longitude old \<noteq> d_longitude d
                then (d_longitude d, d_latitude d) else locationPoint old)"
    using assms(3) by (simp add: rowAfterUpdate_def updateRow_def Let_def)
  from upsert_update_path(1)[OF assms(1) acc assms(2), where now=now and newId=newId]
    upsert_update_path(2)[OF assms(1) acc assms(2), where now=now] fields loc frame
  show "\<exists>jobs' j. upsertJob pg now newId jobs d = Inr (jobs', Some j, False)
              \<and> selectById jobs' (jobId old) = [j]
              \<and> status j = status old
              \<and> title j = d_title d \<and> company j = d_company d
              \<and> description j = d_description d \<and> url j = d_url d
              \<and> street j = d_street d \<and> city j = d_city d \<and> state j = d_state d
              \<and> postalCode j = d_postalCode d \<and> country j = orElse (d_country d) ''US''
              \<and> latitude j = d_latitude d \<and> longitude j = d_longitude d
              \<and> employmentType j = d_employmentType d
              \<and> payMin j = d_payMin d \<and> payMax j = d_payMax d
              \<and> payCurrency j = Some (orElse (d_payCurrency d) ''USD'')
              \<and> postedAt j = d_postedAt d
              \<and> locationPoint j =
                  (if latitude old \<noteq> d_latitude d \<or> longitude old \<noteq> d_longitude d
                   then (d_longitude d, d_latitude d) else locationPoint old)
              \<and> jobId j = jobId old \<and> source j = source old \<and> sourceId j = sourceId old
              \<and> createdAt j = createdAt old
              \<and> filter (\<lambda>k. jobId k \<noteq> jobId old) jobs'
                  = filter (\<lambda>k. jobId k \<noteq> jobId old) jobs"
    by simp
next
  assume "\<not> validInput pg d"
  then show "\<exists>e. upsertJob pg now newId jobs d = Inl e" by (rule upsert_refused)
qed

theorem upsert_existing_keeps_status_witness:
  "tableOk [exJob ''1'' REJECTED (Some ''123 Main St'') 5]
   \<and> existingJobs [exJob ''1'' REJECTED (Some ''123 Main St'') 5] exInput
       = [exJob ''1'' REJECTED (Some ''123 Main St'') 5]
   \<and> d_status exInput = None
   \<and> validInput exPostgres exInput
   \<and> (\<exists>jobs' j. upsertJob exPostgres 9 ''c9'' [exJob ''1'' REJECTED (Some ''123 Main St'') 5] exInput
                    = Inr (jobs', Some j, False)
          \<and> status j = REJECTED \<and> title j = ''Senior Engineer''
          \<and> locationPoint j = (-112, 34))"
proof -
  let ?row = "exJob ''1'' REJECTED (Some ''123 Main St'') 5"
  have h1: "tableOk [?row]" by (simp add: tableOk_def exJob_def)
  have h2: "existingJobs [?row] exInput = ?row # []"
    by (simp add: existingJobs_def exJob_def exInput_def)
  have h3: "d_status exInput = None" by (simp add: exInput_def)
  from upsert_existing_keeps_status [OF h1 h2 h3, where pg = exPostgres and now = 9
      and newId = "''c9''"] exInput_valid
  obtain jobs' j where
    "upsertJob exPostgres 9 ''c9'' [?row] exInput = Inr (jobs', Some j, False)"
    "status j = status ?row" "title j = d_title exInput"
    "locationPoint j =
       (if latitude ?row \<noteq> d_latitude exInput \<or> longitude ?row \<noteq> d_longitude exInput
        then (d_longitude exInput, d_latitude exInput) else locationPoint ?row)"
    by blast
  then have "upsertJob exPostgres 9 ''c9'' [?row] exInput = Inr (jobs', Some j, False)
          \<and> status j = REJECTED \<and> title j = ''Senior Engineer''
          \<and> locationPoint j = (-112, 34)"
    by (simp add: exJob_def exInput_def)
  with h1 h2 h3 exInput_valid show ?thesis by blast
qed

text \<open>
  C5. For an input that upsertJob and the table accept (a valid input), on a table that
  satisfies its constraints and with a generated id that is new, a first call returns
  created exactly when the key was absent, a second call with the same input returns
  created = false, and the stored row after the second call is the row after the first one
  but for updatedAt.
\<close>

theorem upsert_twice_same_record:
  assumes "tableOk jobs" and "validInput pg d"
      and "existingJobs jobs d = [] \<longrightarrow> newId \<notin> set (map jobId jobs)"
  shows "\<exists>jobs1 j1 jobs2 j2.
           upsertJob pg now1 newId jobs d = Inr (jobs1, Some j1, existingJobs jobs d = [])
           \<and> upsertJob pg now2 newId2 jobs1 d = Inr (jobs2, Some j2, False)
           \<and> j2 = j1\<lparr>updatedAt := now2\<rparr>
           \<and> jobs2 = updateWhereId (jobId j1) (\<lambda>j. j\<lparr>updatedAt := now2\<rparr>) jobs1"
proof (cases "existingJobs jobs d")
  case Nil
  with assms(3) have fresh: "newId \<notin> set (map jobId jobs)" by simp
  let ?j1 = "insertRow now1 newId d"
  let ?jobs1 = "jobs @ [?j1]"
  have first: "upsertJob pg now1 newId jobs d = Inr (?jobs1, Some ?j1, True)"
    by (rule upsert_create_path[OF assms(2) Nil fresh])
  have ok1: "tableOk ?jobs1" by (rule tableOk_insert[OF assms(1) Nil fresh])
  have ex1: "existingJobs ?jobs1 d = ?j1 # []"
    using Nil by (simp add: existingJobs_def insertRow_def)
  have row: "rowAfterUpdate now2 d ?j1 = ?j1\<lparr>updatedAt := now2\<rparr>"
    by (cases "d_status d")
       (simp_all add: rowAfterUpdate_def updateRow_def insertRow_def defaultStatus_def Let_def)
  have upd: "updateWhereId (jobId ?j1) (rowAfterUpdate now2 d) ?jobs1
      = updateWhereId (jobId ?j1) (\<lambda>j. j\<lparr>updatedAt := now2\<rparr>) ?jobs1"
    using fresh row
    by (auto simp: updateWhereId_def insertRow_def)
  from upsert_update_path(1)[OF ok1 assms(2) ex1, where now=now2 and newId=newId2] first row upd Nil
  show ?thesis by simp
next
  case (Cons old rest)
  let ?j1 = "rowAfterUpdate now1 d old"
  let ?jobs1 = "updateWhereId (jobId old) (rowAfterUpdate now1 d) jobs"
  have first: "upsertJob pg now1 newId jobs d = Inr (?jobs1, Some ?j1, False)"
    by (rule upsert_update_path(1)[OF assms(1,2) Cons])
  have ok1: "tableOk ?jobs1" by (rule tableOk_update[OF assms(1)])
  have "existingJobs ?jobs1 d
          = map (\<lambda>j. if jobId j = jobId old then rowAfterUpdate now1 d j else j)
              (existingJobs jobs d)"
    by (simp add: existingJobs_def updateWhereId_def filter_map comp_def if_distrib cong: if_cong)
  then have ex1: "existingJobs ?jobs1 d
          = ?j1 # map (\<lambda>j. if jobId j = jobId old then rowAfterUpdate now1 d j else j) rest"
    using Cons by simp
  have row: "rowAfterUpdate now2 d ?j1 = ?j1\<lparr>updatedAt := now2\<rparr>"
    by (cases "d_status d")
       (simp_all add: rowAfterUpdate_def updateRow_def Let_def)
  from existingJobs_head[OF Cons] have mem: "old \<in> set jobs" by simp
  from assms(1) have dist: "distinct (map jobId jobs)" by (simp add: tableOk_def)
  have upd: "updateWhereId (jobId ?j1) (rowAfterUpdate now2 d) ?jobs1
      = updateWhereId (jobId ?j1) (\<lambda>j. j\<lparr>updatedAt := now2\<rparr>) ?jobs1"
    using dist mem
  proof (induction jobs)
    case Nil
    then show ?case by simp
  next
    case (Cons a jobs)
    show ?case
    proof (cases "a = old")
      case True
      with Cons.prems have "\<forall>j \<in> set jobs. jobId j \<noteq> jobId old" by (auto simp: image_iff)
      then have "\<And>f. map (\<lambda>j. if jobId j = jobId old then f j else j) jobs = jobs"
        by (induction jobs) auto
      with True row show ?thesis by (simp add: updateWhereId_def)
    next
      case False
      with Cons.prems have "old \<in> set jobs" and "jobId a \<noteq> jobId old" by (auto simp: image_iff)
      with Cons show ?thesis by (auto simp: updateWhereId_def)
    qed
  qed
  from upsert_update_path(1)[OF ok1 assms(2) ex1, where now=now2 and newId=newId2] first row upd Cons
  show ?thesis by simp
qed


theorem upsert_twice_witness:
  "tableOk [exJob ''7'' APPROVED (Some ''9 Oak St'') 3] \<and> validInput exPostgres exInput
   \<and> (existingJobs [exJob ''7'' APPROVED (Some ''9 Oak St'') 3] exInput = []
        \<and> ''c1'' \<notin> set (map jobId [exJob ''7'' APPROVED (Some ''9 Oak St'') 3]))
   \<and> (\<exists>jobs1 j1 jobs2 j2.
          upsertJob exPostgres 1 ''c1'' [exJob ''7'' APPROVED (Some ''9 Oak St'') 3] exInput
            = Inr (jobs1, Some j1, True)
          \<and> upsertJob exPostgres 2 ''c2'' jobs1 exInput = Inr (jobs2, Some j2, False)
          \<and> j2 = j1\<lparr>updatedAt := 2\<rparr>)"
proof -
  let ?t = "[exJob ''7'' APPROVED (Some ''9 Oak St'') 3]"
  have h1: "tableOk ?t" by (simp add: tableOk_def)
  have h4: "existingJobs ?t exInput = []"
    by (simp add: existingJobs_def exJob_def exInput_def)
  have h5: "''c1'' \<notin> set (map jobId ?t)" by (simp add: exJob_def)
  from h5 have h3: "existingJobs ?t exInput = [] \<longrightarrow> ''c1'' \<notin> set (map jobId ?t)" by simp
  from upsert_twice_same_record [OF h1 exInput_valid h3, where ?now1.0 = 1 and ?now2.0 = 2
      and ?newId2.0 = "''c2''"]
  obtain jobs1 j1 jobs2 j2 where
    "upsertJob exPostgres 1 ''c1'' ?t exInput = Inr (jobs1, Some j1, existingJobs ?t exInput = [])"
    "upsertJob exPostgres 2 ''c2'' jobs1 exInput = Inr (jobs2, Some j2, False)"
    "j2 = j1\<lparr>updatedAt := 2\<rparr>"
    by blast
  with h1 exInput_valid h4 h5 show ?thesis by auto
qed

text \<open>
  C9. The claim that upsertJob never ends in a validation error fails: a sourceId of two
  spaces is refused.
\<close>

theorem upsert_blank_sourceId_counterexample:
  "upsertJob exPostgres 0 ''c1'' []
     \<lparr>d_source = ADZUNA, d_sourceId = ''  '', d_title = ''Engineer'', d_company = ''Acme'',
      d_description = ''Work'', d_url = ''https://example.com/1'', d_street = Some ''123 Main St'',
      d_city = Some ''Phoenix'', d_state = Some ''AZ'', d_postalCode = None, d_country = None,
      d_latitude = 33, d_longitude = -112, d_employmentType = None, d_payMin = None,
      d_payMax = None, d_payCurrency = None, d_postedAt = 0, d_status = None\<rparr>
   = Inl SourceIdRequired"
  by (simp add: upsertJob_def trim_def isSpace_def)

text \<open>
  C9, as amended. A call with a blank sourceId throws the validation error; a call with a
  sourceId that is not blank and a value that its column refuses throws the error of the
  database; every other call returns the stored row and the created flag, provided that
  the id generated for a new row is not taken.
\<close>

theorem upsert_total_unless_sourceId_blank:
  assumes "existingJobs jobs d = [] \<longrightarrow> newId \<notin> set (map jobId jobs)"
  shows "(trim (d_sourceId d) = [] \<longrightarrow> upsertJob pg now newId jobs d = Inl SourceIdRequired)
         \<and> (trim (d_sourceId d) \<noteq> [] \<and> \<not> validInput pg d
              \<longrightarrow> upsertJob pg now newId jobs d = Inl DatabaseError)
         \<and> (validInput pg d \<longrightarrow>
              (\<exists>jobs' j. upsertJob pg now newId jobs d
                            = Inr (jobs', Some j, existingJobs jobs d = [])))"
proof (intro conjI impI)
  assume "trim (d_sourceId d) = []"
  then show "upsertJob pg now newId jobs d = Inl SourceIdRequired"
    by (simp add: upsertJob_def)
next
  assume "trim (d_sourceId d) \<noteq> [] \<and> \<not> validInput pg d"
  then show "upsertJob pg now newId jobs d = Inl DatabaseError"
    by (auto simp: upsertJob_def validInput_def split: list.splits)
next
  assume acc: "validInput pg d"
  then have valid: "d_sourceId d \<noteq> []" "trim (d_sourceId d) \<noteq> []"
    "storableText (d_sourceId d)" "acceptsSource pg (d_source d)" "rowAccepted pg d"
    by (auto simp: validInput_def)
  show "\<exists>jobs' j. upsertJob pg now newId jobs d = Inr (jobs', Some j, existingJobs jobs d = [])"
  proof (cases "existingJobs jobs d")
    case Nil
    with assms acc upsert_create_path[of pg d jobs newId now] show ?thesis by simp
  next
    case (Cons old rest)
    from existingJobs_head[OF Cons] have mem: "old \<in> set jobs" by simp
    let ?jobs2 = "(if latitude old \<noteq> d_latitude d \<or> longitude old \<noteq> d_longitude d
                   then setJobLocationPoint (jobId old) (d_longitude d) (d_latitude d)
                          (updateWhereId (jobId old) (updateRow now d) jobs)
                   else updateWhereId (jobId old) (updateRow now d) jobs)"
    have "map jobId ?jobs2 = map jobId jobs"
      by (simp add: setJobLocationPoint_def map_updateWhereId)
    with mem have "jobId old \<in> set (map jobId ?jobs2)" by (simp del: set_map) simp
    then have "selectById ?jobs2 (jobId old) \<noteq> []"
      by (rule selectById_nonempty)
    then obtain j js where "selectById ?jobs2 (jobId old) = j # js"
      by (cases "selectById ?jobs2 (jobId old)") auto
    with valid Cons show ?thesis
      by (auto simp: upsertJob_def Let_def)
  qed
qed

theorem upsert_total_witness:
  "(existingJobs [] exInput = [] \<and> ''c1'' \<notin> set (map jobId [])) \<and> validInput exPostgres exInput
   \<and> (\<exists>jobs' j. upsertJob exPostgres 1 ''c1'' [] exInput = Inr (jobs', Some j, True))"
proof -
  have h0: "existingJobs [] exInput = [] \<longrightarrow> ''c1'' \<notin> set (map jobId [])" by simp
  have h4: "(existingJobs [] exInput = []) = True" by (simp add: existingJobs_def)
  from upsert_total_unless_sourceId_blank [OF h0, where now = 1 and pg = exPostgres]
    exInput_valid
  obtain jobs' j where
    "upsertJob exPostgres 1 ''c1'' [] exInput = Inr (jobs', Some j, existingJobs [] exInput = [])"
    by blast
  with exInput_valid h4 show ?thesis by auto
qed

section \<open>Properties of the geocoder\<close>

lemma geocode_hit:
  assumes "m (normalizeAddressKey a) = Some c"
  shows "geocodeAddress mb (Some m) a = (Inr c, Some m, 0)"
  using assms by (simp add: geocodeAddress_def Let_def)

lemma geocode_result_cached:
  assumes "geocodeAddress mb (Some m) a = (Inr r, cache1, n)"
  shows "\<exists>m1. cache1 = Some m1 \<and> m1 (normalizeAddressKey a) = Some r"
  using assms
  by (auto simp: geocodeAddress_def Let_def split: option.splits prod.splits sum.splits)

lemma geocode_repeat:
  assumes "geocodeAddress mb (Some m) a1 = (Inr r1, cache1, n1)"
      and "normalizeAddressKey a2 = normalizeAddressKey a1"
  shows "geocodeAddress mb2 cache1 a2 = (Inr r1, cache1, 0)"
proof -
  from geocode_result_cached[OF assms(1)] obtain m1 where
    "cache1 = Some m1" "m1 (normalizeAddressKey a1) = Some r1" by blast
  with assms(2) geocode_hit[of m1 a2 r1 mb2] show ?thesis by simp
qed

lemma ex_key: "normalizeAddressKey exAddress = ''123 n central ave, phoenix, az, 85004, us''"
  by code_simp

lemma ex_first_call:
  "geocodeAddress exMapbox (Some Map.empty) exAddress
     = (Inr \<lparr>lat = 33.4484, lon = -112.074\<rparr>,
        Some [''123 n central ave, phoenix, az, 85004, us'' \<mapsto> \<lparr>lat = 33.4484, lon = -112.074\<rparr>], 2)"
  by (simp add: geocodeAddress_def ex_key Let_def)
     (simp add: geocodeWithMapbox_def exMapbox_def exAddress_def truthyStr_def Let_def)

text \<open>
  C7. With a working cache, after a call of geocodeAddress that returned coordinates, a
  call on an address with the same normalized key makes no call of fetch, returns the same
  coordinates and leaves the cache as it is.
\<close>

theorem geocode_second_call_from_cache:
  assumes "geocodeAddress mb (Some m) a = (Inr r, cache', n)"
      and "normalizeAddressKey b = normalizeAddressKey a"
  shows "geocodeAddress mb' cache' b = (Inr r, cache', 0)"
proof -
  from geocode_result_cached[OF assms(1)] obtain m' where
    "cache' = Some m'" and "m' (normalizeAddressKey a) = Some r" by blast
  with assms(2) geocode_hit[of m' b r mb'] show ?thesis by simp
qed

theorem geocode_second_call_witness:
  "geocodeAddress exMapbox (Some Map.empty) exAddress
     = (Inr \<lparr>lat = 33.4484, lon = -112.074\<rparr>,
        Some [''123 n central ave, phoenix, az, 85004, us'' \<mapsto> \<lparr>lat = 33.4484, lon = -112.074\<rparr>], 2)
   \<and> geocodeAddress exMapbox
        (Some [''123 n central ave, phoenix, az, 85004, us'' \<mapsto> \<lparr>lat = 33.4484, lon = -112.074\<rparr>])
        exAddress
     = (Inr \<lparr>lat = 33.4484, lon = -112.074\<rparr>,
        Some [''123 n central ave, phoenix, az, 85004, us'' \<mapsto> \<lparr>lat = 33.4484, lon = -112.074\<rparr>], 0)"
  using geocode_second_call_from_cache [OF ex_first_call, where b = exAddress and mb' = exMapbox] ex_first_call
  by simp

lemma isSpace_lowerChar [simp]: "isSpace (lowerChar c) = isSpace c"
  by (auto simp: isSpace_def lowerChar_def isUpper_def)

lemma trim_padded:
  assumes "list_all isSpace l" and "list_all isSpace r"
  shows "trim (l @ u @ r) = trim u"
proof -
  from assms(1) have a: "dropWhile isSpace (l @ u @ r) = dropWhile isSpace (u @ r)"
    by (intro dropWhile_append2) (simp add: list_all_iff)
  show ?thesis
  proof (cases "list_all isSpace u")
    case True
    with assms(2) have "dropWhile isSpace (u @ r) = []" "dropWhile isSpace u = []"
      unfolding dropWhile_eq_Nil_conv by (auto simp: list_all_iff)
    then show ?thesis unfolding trim_def a by (simp only:)
  next
    case False
    then obtain x where x: "x \<in> set u" "\<not> isSpace x" by (auto simp: list_all_iff)
    then have b: "dropWhile isSpace (u @ r) = dropWhile isSpace u @ r"
      by (intro dropWhile_append1)
    from assms(2) have "dropWhile isSpace (rev r @ rev (dropWhile isSpace u))
        = dropWhile isSpace (rev (dropWhile isSpace u))"
      by (intro dropWhile_append2) (simp add: list_all_iff)
    then show ?thesis unfolding trim_def a b by (simp only: rev_append)
  qed
qed

lemma toLowerCase_append: "toLowerCase (a @ b) = toLowerCase a @ toLowerCase b"
  by (simp add: toLowerCase_def)

lemma list_all_space_lower: "list_all isSpace (toLowerCase l) = list_all isSpace l"
  by (simp add: toLowerCase_def list_all_iff)

lemma sameUpTo_norm:
  assumes "sameUpToCaseAndPadding s t"
  shows "trim (toLowerCase s) = trim (toLowerCase t)"
proof -
  from assms obtain l r l' r' u v where
    sp: "list_all isSpace l" "list_all isSpace r" "list_all isSpace l'" "list_all isSpace r'"
    and st: "s = l @ u @ r" "t = l' @ v @ r'" and uv: "toLowerCase u = toLowerCase v"
    by (auto simp: sameUpToCaseAndPadding_def)
  have "trim (toLowerCase s) = trim (toLowerCase u)"
    unfolding st toLowerCase_append using sp
    by (intro trim_padded) (simp_all add: list_all_space_lower)
  moreover have "trim (toLowerCase t) = trim (toLowerCase v)"
    unfolding st toLowerCase_append using sp
    by (intro trim_padded) (simp_all add: list_all_space_lower)
  ultimately show ?thesis using uv by simp
qed

lemma normalizeAddressKey_parts:
  "normalizeAddressKey a =
     joinWith '', '' (keyPart (a_street a) @ keyPart (a_city a) @ keyPart (a_state a)
        @ keyPart (a_postalCode a)
        @ keyPart (Some (if truthyStr (a_country a) then the (a_country a) else ''US'')))"
  by (simp add: normalizeAddressKey_def keyPart_def truthyStr_def)

lemma sameComponent_keyPart:
  assumes "sameComponent x y"
  shows "keyPart x = keyPart y"
  using assms sameUpTo_norm
  by (auto simp: sameComponent_def keyPart_def truthyStr_def)

lemma sameCountry_keyPart:
  assumes "sameCountry x y"
  shows "keyPart (Some (if truthyStr x then the x else ''US''))
       = keyPart (Some (if truthyStr y then the y else ''US''))"
proof -
  from assms consider "sameComponent x y" | "x = None \<and> y = Some ''US''" | "x = Some ''US'' \<and> y = None"
    by (auto simp: sameCountry_def)
  then show ?thesis
  proof cases
    case 1
    then consider "x = y" | s t where "x = Some s" "y = Some t" "s \<noteq> []" "t \<noteq> []"
        "sameUpToCaseAndPadding s t"
      by (auto simp: sameComponent_def)
    then show ?thesis
    proof cases
      case 1
      then show ?thesis by simp
    next
      case 2
      with sameUpTo_norm[OF 2(5)] show ?thesis by (simp add: keyPart_def truthyStr_def)
    qed
  next
    case 2
    then show ?thesis by (simp add: truthyStr_def)
  next
    case 3
    then show ?thesis by (simp add: truthyStr_def)
  qed
qed

lemma sameUpToCaseAndPaddingI:
  assumes "list_all isSpace l" "list_all isSpace r" "list_all isSpace l'" "list_all isSpace r'"
      and "toLowerCase u = toLowerCase v"
  shows "sameUpToCaseAndPadding (l @ u @ r) (l' @ v @ r')"
  unfolding sameUpToCaseAndPadding_def using assms by blast

lemma ex_same_street:
  "sameUpToCaseAndPadding ''123 N Central Ave'' ''  123 n CENTRAL ave ''"
proof -
  have "toLowerCase ''123 N Central Ave'' = toLowerCase ''123 n CENTRAL ave''" by code_simp
  moreover have "list_all isSpace ''  ''" "list_all isSpace '' ''" by code_simp+
  ultimately have "sameUpToCaseAndPadding ([] @ ''123 N Central Ave'' @ [])
      (''  '' @ ''123 n CENTRAL ave'' @ '' '')"
    by (intro sameUpToCaseAndPaddingI) simp_all
  then show ?thesis by simp
qed

lemma ex_same_city: "sameUpToCaseAndPadding ''Phoenix'' ''PHOENIX''"
proof -
  have "toLowerCase ''Phoenix'' = toLowerCase ''PHOENIX''" by code_simp
  then have "sameUpToCaseAndPadding ([] @ ''Phoenix'' @ []) ([] @ ''PHOENIX'' @ [])"
    by (intro sameUpToCaseAndPaddingI) simp_all
  then show ?thesis by simp
qed

text \<open>
  C10. The claim fails for a component that is empty in one address and white space in the
  other: the empty street is dropped before the key is built, the street of one space is
  kept and trimmed to an empty entry, so the two keys differ.
\<close>

theorem address_key_blank_component_counterexample:
  "normalizeAddressKey \<lparr>a_street = Some '' '', a_city = Some ''Phoenix'', a_state = None,
       a_postalCode = None, a_country = None\<rparr> = '', phoenix, us''
   \<and> normalizeAddressKey \<lparr>a_street = Some [], a_city = Some ''Phoenix'', a_state = None,
       a_postalCode = None, a_country = None\<rparr> = ''phoenix, us''"
  by code_simp

text \<open>
  C10, as amended. Two addresses whose components are equal, or are both non-empty and
  differ only in letter case and in leading or trailing white space, and whose countries
  are related in the same way or are absent and \<open>US\<close>, have the same cache key; so
  once a call on one of them has returned coordinates, a call on the other returns the same
  coordinates without any call of fetch.
\<close>

theorem address_key_ignores_case_and_padding:
  assumes "sameComponent (a_street a) (a_street b)"
      and "sameComponent (a_city a) (a_city b)"
      and "sameComponent (a_state a) (a_state b)"
      and "sameComponent (a_postalCode a) (a_postalCode b)"
      and "sameCountry (a_country a) (a_country b)"
  shows "normalizeAddressKey a = normalizeAddressKey b
         \<and> (geocodeAddress mb (Some m) a = (Inr r, cache', n)
              \<longrightarrow> geocodeAddress mb' cache' b = (Inr r, cache', 0))"
proof -
  have key: "normalizeAddressKey a = normalizeAddressKey b"
    unfolding normalizeAddressKey_parts
    using assms(1-4)[THEN sameComponent_keyPart] sameCountry_keyPart[OF assms(5)]
    by simp
  then show ?thesis
    using geocode_repeat[of mb m a r cache' n b mb'] by simp
qed

theorem address_key_witness:
  "sameComponent (a_street exAddress) (a_street exAddressVariant)
   \<and> sameComponent (a_city exAddress) (a_city exAddressVariant)
   \<and> sameComponent (a_state exAddress) (a_state exAddressVariant)
   \<and> sameComponent (a_postalCode exAddress) (a_postalCode exAddressVariant)
   \<and> sameCountry (a_country exAddress) (a_country exAddressVariant)
   \<and> normalizeAddressKey exAddress = normalizeAddressKey exAddressVariant"
proof -
  have h1: "sameComponent (a_street exAddress) (a_street exAddressVariant)"
    using ex_same_street by (simp add: sameComponent_def exAddress_def exAddressVariant_def)
  have h2: "sameComponent (a_city exAddress) (a_city exAddressVariant)"
    using ex_same_city by (simp add: sameComponent_def exAddress_def exAddressVariant_def)
  have h3: "sameComponent (a_state exAddress) (a_state exAddressVariant)"
    by (simp add: sameComponent_def exAddress_def exAddressVariant_def)
  have h4: "sameComponent (a_postalCode exAddress) (a_postalCode exAddressVariant)"
    by (simp add: sameComponent_def exAddress_def exAddressVariant_def)
  have h5: "sameCountry (a_country exAddress) (a_country exAddressVariant)"
    by (simp add: sameCountry_def exAddress_def exAddressVariant_def)
  from address_key_ignores_case_and_padding [OF h1 h2 h3 h4 h5] h1 h2 h3 h4 h5
  show ?thesis by blast
qed

subsection \<open>Reverse geocoding\<close>

lemma pickBest_props:
  assumes "p \<le> precisionOf f"
  shows "fst (pickBest (f, p) fs) \<in> set (f # fs)
         \<and> p \<le> precisionOf (fst (pickBest (f, p) fs))
         \<and> snd (pickBest (f, p) fs) \<le> precisionOf (fst (pickBest (f, p) fs))
         \<and> p \<le> snd (pickBest (f, p) fs)
         \<and> (\<forall>g \<in> set fs. precisionOf g \<le> snd (pickBest (f, p) fs))"
  using assms
proof (induction fs arbitrary: f p)
  case Nil
  then show ?case by simp
next
  case (Cons g fs)
  show ?case
  proof (cases "precisionOf g > p")
    case True
    from Cons.IH[of "precisionOf g" g] True show ?thesis by auto
  next
    case False
    from Cons.IH[OF Cons.prems] False show ?thesis by auto
  qed
qed

lemma pickBest_from_zero:
  "fst (pickBest (f0, 0) (f0 # fs)) \<in> set (f0 # fs)
   \<and> (\<forall>g \<in> set (f0 # fs). precisionOf g \<le> precisionOf (fst (pickBest (f0, 0) (f0 # fs))))"
  using pickBest_props[of 0 f0 "f0 # fs"] by fastforce

lemma precisionOf_ranks:
  "(featureType g = Some ''poi'' \<and> featureType h \<noteq> Some ''poi'' \<longrightarrow> precisionOf h < precisionOf g)
   \<and> (featureType g = Some ''address'' \<and> featureType h \<notin> {Some ''poi'', Some ''address''}
        \<longrightarrow> precisionOf h < precisionOf g)
   \<and> (featureType g = Some ''street''
        \<and> featureType h \<notin> {Some ''poi'', Some ''address'', Some ''street''}
        \<longrightarrow> precisionOf h < precisionOf g)"
  by (simp add: precisionOf_def)

lemma ex_reverse_poi:
  "reverseGeocode (exReverse [exPlace, exPoi]) 33 (-112) False
     = Inr (Some \<lparr>a_street = Some ''100 N 1st Ave Cafe Uno'', a_city = Some ''Phoenix'',
                  a_state = Some ''AZ'', a_postalCode = None, a_country = Some ''US''\<rparr>)"
  by code_simp

text \<open>
  C8. The precision score puts a point of interest above an address, an address above a
  street and a street above every other type; the feature that reverseGeocode works on has
  the highest score among the returned features; when allowImprecise is false and that
  feature is of type place or region the result is null; and an address that is returned
  has the street taken from that feature.
\<close>

theorem reverse_prefers_precise_and_gates_city_level:
  assumes "truthyStr (mapboxToken mb)" and "reverseLookup mb lon' lat' = Body (f0 # fs)"
  shows "(\<forall>g h. (featureType g = Some ''poi'' \<and> featureType h \<noteq> Some ''poi''
                    \<longrightarrow> precisionOf h < precisionOf g)
                \<and> (featureType g = Some ''address''
                    \<and> featureType h \<notin> {Some ''poi'', Some ''address''}
                    \<longrightarrow> precisionOf h < precisionOf g)
                \<and> (featureType g = Some ''street''
                    \<and> featureType h \<notin> {Some ''poi'', Some ''address'', Some ''street''}
                    \<longrightarrow> precisionOf h < precisionOf g))
         \<and> (\<exists>best \<in> set (f0 # fs).
               (\<forall>g \<in> set (f0 # fs). precisionOf g \<le> precisionOf best)
               \<and> (\<not> allowImprecise
                    \<and> (featureType best = Some ''place'' \<or> featureType best = Some ''region'')
                    \<longrightarrow> reverseGeocode mb lat' lon' allowImprecise = Inr None)
               \<and> (\<forall>addr. reverseGeocode mb lat' lon' allowImprecise = Inr (Some addr)
                    \<longrightarrow> a_street addr = orUndefined (streetOf best)))"
proof -
  let ?best = "fst (pickBest (f0, 0) (f0 # fs))"
  from pickBest_from_zero[of f0 fs] have
    mem: "?best \<in> set (f0 # fs)" and
    mx: "\<forall>g \<in> set (f0 # fs). precisionOf g \<le> precisionOf ?best" by blast+
  have gate: "\<not> allowImprecise \<and> (featureType ?best = Some ''place'' \<or> featureType ?best = Some ''region'')
                \<longrightarrow> reverseGeocode mb lat' lon' allowImprecise = Inr None"
    using assms by (auto simp: reverseGeocode_def Let_def)
  have str: "\<forall>addr. reverseGeocode mb lat' lon' allowImprecise = Inr (Some addr)
                \<longrightarrow> a_street addr = orUndefined (streetOf ?best)"
    using assms
    by (auto simp: reverseGeocode_def Let_def split: if_splits prod.splits)
  from mem mx gate str have "\<exists>best \<in> set (f0 # fs).
               (\<forall>g \<in> set (f0 # fs). precisionOf g \<le> precisionOf best)
               \<and> (\<not> allowImprecise
                    \<and> (featureType best = Some ''place'' \<or> featureType best = Some ''region'')
                    \<longrightarrow> reverseGeocode mb lat' lon' allowImprecise = Inr None)
               \<and> (\<forall>addr. reverseGeocode mb lat' lon' allowImprecise = Inr (Some addr)
                    \<longrightarrow> a_street addr = orUndefined (streetOf best))"
    by blast
  with precisionOf_ranks show ?thesis by blast
qed

theorem reverse_witness:
  "truthyStr (mapboxToken (exReverse [exPlace]))
   \<and> reverseLookup (exReverse [exPlace]) (-112) 33 = Body [exPlace]
   \<and> featureType exPlace = Some ''place''
   \<and> reverseGeocode (exReverse [exPlace]) 33 (-112) False = Inr None
   \<and> reverseGeocode (exReverse [exPlace, exPoi]) 33 (-112) False
       = Inr (Some \<lparr>a_street = Some ''100 N 1st Ave Cafe Uno'', a_city = Some ''Phoenix'',
                    a_state = Some ''AZ'', a_postalCode = None, a_country = Some ''US''\<rparr>)"
proof -
  have h1: "truthyStr (mapboxToken (exReverse [exPlace]))"
    by (simp add: exReverse_def truthyStr_def)
  have h2: "reverseLookup (exReverse [exPlace]) (-112) 33 = Body (exPlace # [])"
    by (simp add: exReverse_def)
  have h3: "featureType exPlace = Some ''place''"
    by (simp add: featureType_def exPlace_def)
  from reverse_prefers_precise_and_gates_city_level [OF h1 h2, where allowImprecise = False] h3
  have "reverseGeocode (exReverse [exPlace]) 33 (-112) False = Inr None" by simp
  with h1 h2 h3 ex_reverse_poi show ?thesis by simp
qed

section \<open>Properties of the salary parsers\<close>

lemma matchRuns_chars:
  assumes "list_all isSalaryChar cur"
  shows "\<forall>r \<in> set (matchRuns cur s). list_all isSalaryChar r"
  using assms
proof (induction s arbitrary: cur)
  case Nil
  then show ?case by simp
next
  case (Cons c cs)
  show ?case
  proof (cases "isSalaryChar c")
    case True
    with Cons.prems have "list_all isSalaryChar (cur @ [c])" by simp
    from Cons.IH[OF this] True show ?thesis by simp
  next
    case False
    have "\<forall>r \<in> set (matchRuns [] cs). list_all isSalaryChar r"
      by (rule Cons.IH) simp
    with False Cons.prems show ?thesis by simp
  qed
qed

lemma not_salary_dollar [simp]: "\<not> isSalaryChar (CHR ''$'')"
  by (simp add: isSalaryChar_def isDigit_def)

lemma strip_dollar_run:
  assumes "list_all isSalaryChar run"
  shows "filter (\<lambda>c. c \<noteq> CHR ''$'' \<and> c \<noteq> CHR '','') run = filter (\<lambda>c. c \<noteq> CHR '','') run"
  using assms by (induction run) auto

lemma matchDollarRuns_strip:
  assumes "list_all isSalaryChar run" and "pre = [] \<or> pre = ''$''"
  shows "map (filter (\<lambda>c. c \<noteq> CHR ''$'' \<and> c \<noteq> CHR '','')) (matchDollarRuns (pre @ run) s)
       = map (filter (\<lambda>c. c \<noteq> CHR '','')) (matchRuns run s)"
  using assms
proof (induction s arbitrary: pre run)
  case Nil
  then have "list_ex isSalaryChar (pre @ run) = (run \<noteq> [])"
    by (cases run) (auto simp: list_ex_iff)
  with Nil show ?case by (auto simp: strip_dollar_run)
next
  case (Cons c cs)
  have ex: "list_ex isSalaryChar (pre @ run) = (run \<noteq> [])"
    using Cons.prems by (cases run) (auto simp: list_ex_iff)
  show ?case
  proof (cases "isSalaryChar c")
    case True
    with Cons.prems have "list_all isSalaryChar (run @ [c])" by simp
    from Cons.IH[OF this Cons.prems(2)] True show ?thesis by simp
  next
    case False
    have "map (filter (\<lambda>c. c \<noteq> CHR ''$'' \<and> c \<noteq> CHR '',''))
            (matchDollarRuns ((if c = CHR ''$'' then ''$'' else []) @ []) cs)
        = map (filter (\<lambda>c. c \<noteq> CHR '','')) (matchRuns [] cs)"
      by (rule Cons.IH) auto
    with False ex Cons.prems show ?thesis by (auto simp: strip_dollar_run)
  qed
qed

lemma strip_commas_run:
  assumes "list_all isSalaryChar r"
  shows "filter (\<lambda>c. c \<noteq> CHR '','') r = filter isDigit r"
  using assms by (induction r) (auto simp: isSalaryChar_def isDigit_def)

lemma decimalValue_digits [simp]: "decimalValue (filter isDigit r) = decimalValue r"
  by (simp add: decimalValue_def)

lemma parseInt_run:
  assumes "list_all isSalaryChar r"
  shows "parseInt (filter (\<lambda>c. c \<noteq> CHR '','') r) =
           (if \<not> list_ex isDigit r then NaN
            else if decimalValue r < 2 ^ 53 then Num (decimalValue r) else Huge)"
proof -
  have tw: "takeWhile isDigit (filter isDigit r) = filter isDigit r"
    unfolding takeWhile_eq_all_conv by simp
  have ne: "(filter isDigit r = []) = (\<not> list_ex isDigit r)"
    by (simp add: filter_empty_conv list_ex_iff)
  show ?thesis
    unfolding strip_commas_run[OF assms] parseInt_def Let_def tw ne decimalValue_digits
    by simp
qed

lemma amounts_of_runs:
  assumes "\<forall>r \<in> set rs. list_all isSalaryChar r" and "\<forall>r \<in> set rs. decimalValue r < 2 ^ 53"
  shows "filter (\<lambda>n. n \<noteq> NaN) (map (\<lambda>n. parseInt (filter (\<lambda>c. c \<noteq> CHR '','') n)) rs)
           = map Num (map decimalValue (filter (list_ex isDigit) rs))"
  using assms by (induction rs) (simp_all add: parseInt_run)

lemma numbers_of_runs:
  assumes "\<forall>r \<in> set rs. list_all isSalaryChar r" and "\<forall>r \<in> set rs. decimalValue r < 2 ^ 53"
      and "list_all (list_ex isDigit) rs"
  shows "map (\<lambda>n. parseInt (filter (\<lambda>c. c \<noteq> CHR '','') n)) rs = map Num (map decimalValue rs)"
  using assms by (induction rs) (simp_all add: parseInt_run)

lemma Min_insert2:
  assumes "finite A"
  shows "Min (insert (min a b) A) = Min (insert a (insert b A))"
proof (cases "A = {}")
  case True
  then show ?thesis by (simp add: min_def)
next
  case False
  with assms show ?thesis by (simp add: min.assoc)
qed

lemma Max_insert2:
  assumes "finite A"
  shows "Max (insert (max a b) A) = Max (insert a (insert b A))"
proof (cases "A = {}")
  case True
  then show ?thesis by (simp add: max_def)
next
  case False
  with assms show ?thesis by (simp add: max.assoc)
qed

lemma mathMin_Num: "mathMin (Num a) (map Num as) = Num (Min (set (a # as)))"
  unfolding mathMin_def
proof (induction as arbitrary: a)
  case Nil
  then show ?case by simp
next
  case (Cons b as)
  have "foldl min2 (Num a) (map Num (b # as)) = foldl min2 (Num (min a b)) (map Num as)"
    by simp
  also have "\<dots> = Num (Min (set (min a b # as)))" by (rule Cons.IH)
  also have "Min (set (min a b # as)) = Min (set (a # b # as))"
    using Min_insert2[of "set as" a b] by simp
  finally show ?case .
qed

lemma mathMax_Num: "mathMax (Num a) (map Num as) = Num (Max (set (a # as)))"
  unfolding mathMax_def
proof (induction as arbitrary: a)
  case Nil
  then show ?case by simp
next
  case (Cons b as)
  have "foldl max2 (Num a) (map Num (b # as)) = foldl max2 (Num (max a b)) (map Num as)"
    by simp
  also have "\<dots> = Num (Max (set (max a b # as)))" by (rule Cons.IH)
  also have "Max (set (max a b # as)) = Max (set (a # b # as))"
    using Max_insert2[of "set as" a b] by simp
  finally show ?case .
qed

lemma Min_le_Max_list:
  assumes "ns \<noteq> []"
  shows "Min (set ns) \<le> Max (set (ns :: nat list))"
proof -
  from assms have "Min (set ns) \<in> set ns" by (intro Min_in) simp_all
  then show ?thesis by (intro Max_ge) simp_all
qed

lemma arizona_on_numbers:
  assumes "map (\<lambda>n. parseInt (filter (\<lambda>c. c \<noteq> CHR '','') n)) (matchRuns [] s) = map Num ns"
  shows "parseSalary_arizona (Some s) =
           (if ns = [] then (None, None)
            else if 0 < Max (set ns) \<and> Max (set ns) < 100
            then (if Min (set ns) = 0 then None else Some (Num (Min (set ns) * 2080)),
                  Some (Num (Max (set ns) * 2080)))
            else (Some (Num (Min (set ns))), Some (Num (Max (set ns)))))"
proof (cases "s = []")
  case True
  with assms have "ns = []" by simp
  with True show ?thesis by (simp add: parseSalary_arizona_def truthyStr_def)
next
  case ne: False
  show ?thesis
  proof (cases ns)
    case Nil
    with assms ne show ?thesis by (simp add: parseSalary_arizona_def truthyStr_def)
  next
    case (Cons n ms)
    define L where "L = Min (set ns)"
    define H where "H = Max (set ns)"
    have LH: "L \<le> H" unfolding L_def H_def using Cons by (intro Min_le_Max_list) simp
    have lo: "(if map Num ms = [] then Num n else mathMin (Num n) (map Num ms)) = Num L"
      unfolding L_def Cons by (cases ms) (simp_all only: mathMin_Num, simp_all)
    have hi: "(if map Num ms = [] then Num n else mathMax (Num n) (map Num ms)) = Num H"
      unfolding H_def Cons by (cases ms) (simp_all only: mathMax_Num, simp_all)
    have "parseSalary_arizona (Some s) =
            (let payMin = (if map Num ms = [] then Num n else mathMin (Num n) (map Num ms));
                 payMax = (if map Num ms = [] then Num n else mathMax (Num n) (map Num ms))
             in if truthyJs payMax \<and> lessJs payMax 100
                then (if truthyJs payMin then Some (timesJs payMin 2080) else None,
                      Some (timesJs payMax 2080))
                else (Some payMin, Some payMax))"
      using assms ne unfolding Cons by (simp add: parseSalary_arizona_def truthyStr_def)
    then have "parseSalary_arizona (Some s) =
             (if 0 < H \<and> H < 100
              then (if L = 0 then None else Some (Num (L * 2080)), Some (Num (H * 2080)))
              else (Some (Num L), Some (Num H)))"
      unfolding lo hi using LH by (simp add: Let_def)
    then show ?thesis unfolding L_def H_def using Cons by simp
  qed
qed

lemma indeed_on_numbers:
  assumes "filter (\<lambda>n. n \<noteq> NaN)
             (map (\<lambda>n. parseInt (filter (\<lambda>c. c \<noteq> CHR '','') n)) (matchRuns [] s)) = map Num ns"
  shows "parseSalary_indeed (Some s) =
           (if ns = [] then (None, None)
            else (Some (Num (Min (set ns))), Some (Num (Max (set ns)))))"
proof -
  have "map (filter (\<lambda>c. c \<noteq> CHR ''$'' \<and> c \<noteq> CHR '','')) (matchDollarRuns ([] @ []) s)
       = map (filter (\<lambda>c. c \<noteq> CHR '','')) (matchRuns [] s)"
    by (rule matchDollarRuns_strip) simp_all
  then have "map parseInt (map (filter (\<lambda>c. c \<noteq> CHR ''$'' \<and> c \<noteq> CHR '','')) (matchDollarRuns [] s))
       = map parseInt (map (filter (\<lambda>c. c \<noteq> CHR '','')) (matchRuns [] s))"
    by simp
  then have "map (\<lambda>n. parseInt (filter (\<lambda>c. c \<noteq> CHR ''$'' \<and> c \<noteq> CHR '','') n)) (matchDollarRuns [] s)
       = map (\<lambda>n. parseInt (filter (\<lambda>c. c \<noteq> CHR '','') n)) (matchRuns [] s)"
    by (simp add: comp_def)
  with assms have am: "filter (\<lambda>n. n \<noteq> NaN)
           (map (\<lambda>n. parseInt (filter (\<lambda>c. c \<noteq> CHR ''$'' \<and> c \<noteq> CHR '','') n))
              (matchDollarRuns [] s)) = map Num ns" by simp
  show ?thesis
  proof (cases ns)
    case Nil
    with am show ?thesis
      by (simp add: parseSalary_indeed_def truthyStr_def Let_def)
  next
    case (Cons n ms)
    with am have ne: "matchDollarRuns [] s \<noteq> []" by auto
    then have sne: "s \<noteq> []" by auto
    show ?thesis
    proof (cases ms)
      case Nil
      with Cons am sne ne show ?thesis
        by (simp add: parseSalary_indeed_def truthyStr_def Let_def)
    next
      case (Cons m ms')
      with \<open>ns = n # ms\<close> am sne ne
      have "parseSalary_indeed (Some s)
              = (Some (mathMin (Num n) (map Num (m # ms'))), Some (mathMax (Num n) (map Num (m # ms'))))"
        by (simp add: parseSalary_indeed_def truthyStr_def Let_def)
      with Cons \<open>ns = n # ms\<close> show ?thesis
        by (simp only: mathMin_Num mathMax_Num) simp
    qed
  qed
qed

lemma ex_hourly_runs:
  "matchDollarRuns [] ''$15 - $20 an hour'' = [''$15'', ''$20'']"
  "matchRuns [] ''$15 - $20 an hour'' = [''15'', ''20'']"
  by code_simp+

lemma ex_hourly_values:
  "map (\<lambda>n. parseInt (filter (\<lambda>c. c \<noteq> CHR '','') n)) (matchRuns [] ''$15 - $20 an hour'')
     = map Num [15, 20]"
  unfolding ex_hourly_runs
  by (simp add: parseInt_def isDigit_def digitVal_def decimalValue_def)

text \<open>
  C6. The claim fails for the parser of the Indeed adapter, which never multiplies: on
  \<open>$15 - $20 an hour\<close> it returns 15 and 20, where the parser of the Arizona adapter
  returns 31200 and 41600.
\<close>

theorem parseSalary_indeed_counterexample:
  "parseSalary_indeed (Some ''$15 - $20 an hour'') = (Some (Num 15), Some (Num 20))
   \<and> parseSalary_arizona (Some ''$15 - $20 an hour'') = (Some (Num 31200), Some (Num 41600))"
proof -
  have am: "filter (\<lambda>n. n \<noteq> NaN)
          (map (\<lambda>n. parseInt (filter (\<lambda>c. c \<noteq> CHR '','') n)) (matchRuns [] ''$15 - $20 an hour''))
        = map Num [15, 20]"
    unfolding ex_hourly_values by simp
  have "parseSalary_indeed (Some ''$15 - $20 an hour'') = (Some (Num 15), Some (Num 20))"
    using indeed_on_numbers[OF am] by simp
  moreover have "parseSalary_arizona (Some ''$15 - $20 an hour'')
      = (Some (Num 31200), Some (Num 41600))"
    using arizona_on_numbers[OF ex_hourly_values] by simp
  ultimately show ?thesis by simp
qed

text \<open>
  C6, as amended. The tokens are the runs of digits and commas; a run with a digit is read
  as the number its digits spell (below 2^53, so that the number is exact), a run without
  a digit is not a number. Both parsers return no pay fields for a missing or empty text.
  The Indeed parser drops the runs without a digit, returns no pay fields when no number
  is left, and otherwise the minimum and the maximum of the numbers, never multiplied. The
  Arizona parser, on a text in which every run has a digit, returns no pay fields when
  there is no run, and otherwise the minimum and the maximum, except that for a maximum
  above 0 and below 100 it returns 2080 times the maximum, and 2080 times the minimum or,
  for a minimum of 0, no payMin.
\<close>

theorem parseSalary_min_max_annualized:
  assumes "list_all (\<lambda>r. decimalValue r < 2 ^ 53) (matchRuns [] s)"
  shows "parseSalary_indeed None = (None, None) \<and> parseSalary_arizona None = (None, None)
         \<and> parseSalary_indeed (Some s) =
             (let ns = map decimalValue (filter (list_ex isDigit) (matchRuns [] s))
              in if ns = [] then (None, None)
                 else (Some (Num (Min (set ns))), Some (Num (Max (set ns)))))
         \<and> (list_all (list_ex isDigit) (matchRuns [] s) \<longrightarrow>
              parseSalary_arizona (Some s) =
                (let ns = map decimalValue (matchRuns [] s)
                 in if ns = [] then (None, None)
                    else if 0 < Max (set ns) \<and> Max (set ns) < 100
                    then (if Min (set ns) = 0 then None else Some (Num (Min (set ns) * 2080)),
                          Some (Num (Max (set ns) * 2080)))
                    else (Some (Num (Min (set ns))), Some (Num (Max (set ns))))))"
proof -
  have chars: "\<forall>r \<in> set (matchRuns [] s). list_all isSalaryChar r"
    by (rule matchRuns_chars) simp
  from assms have bnd: "\<forall>r \<in> set (matchRuns [] s). decimalValue r < 2 ^ 53"
    unfolding list_all_iff .
  have none: "parseSalary_indeed None = (None, None)" "parseSalary_arizona None = (None, None)"
    by (simp_all add: parseSalary_indeed_def parseSalary_arizona_def truthyStr_def)
  have ind: "parseSalary_indeed (Some s) =
             (let ns = map decimalValue (filter (list_ex isDigit) (matchRuns [] s))
              in if ns = [] then (None, None)
                 else (Some (Num (Min (set ns))), Some (Num (Max (set ns)))))"
    unfolding Let_def by (rule indeed_on_numbers) (rule amounts_of_runs[OF chars bnd])
  have ari: "list_all (list_ex isDigit) (matchRuns [] s) \<longrightarrow>
              parseSalary_arizona (Some s) =
                (let ns = map decimalValue (matchRuns [] s)
                 in if ns = [] then (None, None)
                    else if 0 < Max (set ns) \<and> Max (set ns) < 100
                    then (if Min (set ns) = 0 then None else Some (Num (Min (set ns) * 2080)),
                          Some (Num (Max (set ns) * 2080)))
                    else (Some (Num (Min (set ns))), Some (Num (Max (set ns)))))"
  proof
    assume "list_all (list_ex isDigit) (matchRuns [] s)"
    from numbers_of_runs[OF chars bnd this] show "parseSalary_arizona (Some s) =
                (let ns = map decimalValue (matchRuns [] s)
                 in if ns = [] then (None, None)
                    else if 0 < Max (set ns) \<and> Max (set ns) < 100
                    then (if Min (set ns) = 0 then None else Some (Num (Min (set ns) * 2080)),
                          Some (Num (Max (set ns) * 2080)))
                    else (Some (Num (Min (set ns))), Some (Num (Max (set ns)))))"
      unfolding Let_def by (rule arizona_on_numbers)
  qed
  from none ind ari show ?thesis by blast
qed

lemma ex_tips_runs:
  "matchRuns [] ''$50,000 - $60,000 a year, plus tips'' = [''50,000'', ''60,000'', '','']"
  by code_simp

lemma ex_tips_values:
  "map decimalValue (filter (list_ex isDigit) [''50,000'', ''60,000'', '','']) = [50000, 60000]"
  "list_all (\<lambda>r. decimalValue r < 2 ^ 53) [''50,000'', ''60,000'', '','']"
  by (simp_all add: decimalValue_def isDigit_def digitVal_def)

lemma ex_hourly_all_digits:
  "list_all (list_ex isDigit) (matchRuns [] ''$15 - $20 an hour'')"
  "list_all (\<lambda>r. decimalValue r < 2 ^ 53) (matchRuns [] ''$15 - $20 an hour'')"
  "map decimalValue (matchRuns [] ''$15 - $20 an hour'') = [15, 20]"
  unfolding ex_hourly_runs
  by (simp_all add: decimalValue_def isDigit_def digitVal_def)

theorem parseSalary_witness:
  "list_all (\<lambda>r. decimalValue r < 2 ^ 53)
      (matchRuns [] ''$50,000 - $60,000 a year, plus tips'')
   \<and> parseSalary_indeed (Some ''$50,000 - $60,000 a year, plus tips'')
       = (Some (Num 50000), Some (Num 60000))
   \<and> list_all (\<lambda>r. decimalValue r < 2 ^ 53) (matchRuns [] ''$15 - $20 an hour'')
   \<and> list_all (list_ex isDigit) (matchRuns [] ''$15 - $20 an hour'')
   \<and> parseSalary_arizona (Some ''$15 - $20 an hour'') = (Some (Num 31200), Some (Num 41600))"
proof -
  have h: "list_all (\<lambda>r. decimalValue r < 2 ^ 53)
             (matchRuns [] ''$50,000 - $60,000 a year, plus tips'')"
    unfolding ex_tips_runs by (rule ex_tips_values(2))
  from parseSalary_min_max_annualized[OF h]
  have "parseSalary_indeed (Some ''$50,000 - $60,000 a year, plus tips'') =
          (let ns = map decimalValue (filter (list_ex isDigit)
                      (matchRuns [] ''$50,000 - $60,000 a year, plus tips''))
           in if ns = [] then (None, None)
              else (Some (Num (Min (set ns))), Some (Num (Max (set ns)))))"
    by blast
  then have a: "parseSalary_indeed (Some ''$50,000 - $60,000 a year, plus tips'')
       = (Some (Num 50000), Some (Num 60000))"
    unfolding ex_tips_runs ex_tips_values(1) by simp
  from parseSalary_min_max_annualized[OF ex_hourly_all_digits(2)] ex_hourly_all_digits(1)
  have "parseSalary_arizona (Some ''$15 - $20 an hour'') =
                (let ns = map decimalValue (matchRuns [] ''$15 - $20 an hour'')
                 in if ns = [] then (None, None)
                    else if 0 < Max (set ns) \<and> Max (set ns) < 100
                    then (if Min (set ns) = 0 then None else Some (Num (Min (set ns) * 2080)),
                          Some (Num (Max (set ns) * 2080)))
                    else (Some (Num (Min (set ns))), Some (Num (Max (set ns)))))"
    by blast
  then have b: "parseSalary_arizona (Some ''$15 - $20 an hour'')
      = (Some (Num 31200), Some (Num 41600))"
    unfolding ex_hourly_all_digits(3) by simp
  from h a b ex_hourly_all_digits(1,2) show ?thesis by blast
qed

end
